theory Spec2Isabelle
  imports Complex_Main
begin

section \<open>Python values that reach the views\<close>

text \<open>
  The views of \<^verbatim>\<open>backend/gmail_app/views.py\<close> read untyped request bodies: a field of
  \<^verbatim>\<open>request.data\<close> is whatever the JSON parser produced. The model keeps every kind of
  JSON value, so that each \<^verbatim>\<open>not x\<close>, \<^verbatim>\<open>len(x)\<close>, \<^verbatim>\<open>min(x, 500)\<close> and
  \<^verbatim>\<open>x > 10000\<close> of the source has the outcome Python gives it, a raised exception included.
  A Python float is its exact value (a rational) or one of the three special values; the
  views only compare floats with integer constants, which Python does exactly.
  A dictionary is an association list whose first binding of a key is the live one.
\<close>

datatype pyfloat = Finite rat | PosInf | NegInf | NaN

datatype json =
    JNull
  | JBool bool
  | JInt int
  | JFloat pyfloat
  | JStr string
  | JList "json list"
  | JDict "(string \<times> json) list"

datatype exn =
    TypeError string
  | AttributeError string
  | KeyError string
  | ValueError string
  | DoesNotExist string
  | Exception string

text \<open>\<^verbatim>\<open>str(e)\<close> of a caught exception: its message.\<close>

fun str_exn :: "exn \<Rightarrow> string" where
  "str_exn (TypeError m) = m"
| "str_exn (AttributeError m) = m"
| "str_exn (KeyError m) = m"
| "str_exn (ValueError m) = m"
| "str_exn (DoesNotExist m) = m"
| "str_exn (Exception m) = m"

fun type_name :: "json \<Rightarrow> string" where
  "type_name JNull = ''NoneType''"
| "type_name (JBool _) = ''bool''"
| "type_name (JInt _) = ''int''"
| "type_name (JFloat _) = ''float''"
| "type_name (JStr _) = ''str''"
| "type_name (JList _) = ''list''"
| "type_name (JDict _) = ''dict''"

text \<open>Truth value of an object, as \<^verbatim>\<open>if x\<close> and \<^verbatim>\<open>not x\<close> test it.\<close>

fun truthy :: "json \<Rightarrow> bool" where
  "truthy JNull = False"
| "truthy (JBool b) = b"
| "truthy (JInt n) = (n \<noteq> 0)"
| "truthy (JFloat f) = (f \<noteq> Finite 0)"
| "truthy (JStr s) = (s \<noteq> [])"
| "truthy (JList xs) = (xs \<noteq> [])"
| "truthy (JDict kv) = (kv \<noteq> [])"

text \<open>\<^verbatim>\<open>len(x)\<close>: defined on strings, lists and dictionaries, a TypeError elsewhere.\<close>

fun py_len :: "json \<Rightarrow> exn + nat" where
  "py_len (JStr s) = Inr (length s)"
| "py_len (JList xs) = Inr (length xs)"
| "py_len (JDict kv) = Inr (length (remdups (map fst kv)))"
| "py_len v = Inl (TypeError (''object of type '' @ [CHR 0x27] @ type_name v @ [CHR 0x27] @ '' has no len()''))"

text \<open>\<^verbatim>\<open>d.get(key, default)\<close>: only a dictionary has the method.\<close>

fun py_get :: "json \<Rightarrow> string \<Rightarrow> json \<Rightarrow> exn + json" where
  "py_get (JDict kv) k d = Inr (case map_of kv k of Some v \<Rightarrow> v | None \<Rightarrow> d)"
| "py_get v k d = Inl (AttributeError ([CHR 0x27] @ type_name v @ [CHR 0x27] @ '' object has no attribute '' @ [CHR 0x27] @ ''get'' @ [CHR 0x27]))"

text \<open>
  Numbers: \<^verbatim>\<open>bool\<close> is a subclass of \<^verbatim>\<open>int\<close> (True is 1), an int and a float compare by
  value, and every comparison with NaN is false.
\<close>

fun as_number :: "json \<Rightarrow> pyfloat option" where
  "as_number (JBool b) = Some (Finite (if b then 1 else 0))"
| "as_number (JInt n) = Some (Finite (of_int n))"
| "as_number (JFloat f) = Some f"
| "as_number _ = None"

fun float_less :: "pyfloat \<Rightarrow> pyfloat \<Rightarrow> bool" where
  "float_less NaN _ = False"
| "float_less _ NaN = False"
| "float_less (Finite a) (Finite b) = (a < b)"
| "float_less (Finite _) PosInf = True"
| "float_less NegInf (Finite _) = True"
| "float_less NegInf PosInf = True"
| "float_less _ _ = False"

text \<open>\<^verbatim>\<open>x > n\<close> for an integer constant \<open>n\<close>.\<close>

definition py_gt_int :: "json \<Rightarrow> int \<Rightarrow> exn + bool" where
  "py_gt_int x n =
     (case as_number x of
        Some f \<Rightarrow> Inr (float_less (Finite (of_int n)) f)
      | None \<Rightarrow> Inl (TypeError ([CHR 0x27] @ ''>'' @ [CHR 0x27] @ '' not supported between instances of ''
                  @ [CHR 0x27] @ type_name x @ [CHR 0x27] @ '' and '' @ [CHR 0x27] @ ''int'' @ [CHR 0x27])))"

text \<open>
  \<^verbatim>\<open>min(x, n)\<close> for an integer constant \<open>n\<close>: the builtin keeps its first argument and
  replaces it only when \<^verbatim>\<open>n < x\<close>; that comparison raises on a non-number.
\<close>

definition py_min_int :: "json \<Rightarrow> int \<Rightarrow> exn + json" where
  "py_min_int x n =
     (case as_number x of
        Some f \<Rightarrow> Inr (if float_less (Finite (of_int n)) f then JInt n else x)
      | None \<Rightarrow> Inl (TypeError ([CHR 0x27] @ ''<'' @ [CHR 0x27] @ '' not supported between instances of ''
                  @ [CHR 0x27] @ ''int'' @ [CHR 0x27] @ '' and '' @ [CHR 0x27] @ type_name x @ [CHR 0x27])))"

section \<open>Requests, responses and the collaborators' state\<close>

record user =
  user_id :: int
  username :: string

text \<open>
  \<^verbatim>\<open>request.GET\<close> is a QueryDict over the query string's pairs in order; its \<^verbatim>\<open>get\<close>
  returns the last value of a key, or the default.
\<close>

record request =
  user :: user
  data :: json
  GET :: "(string \<times> string) list"

definition QueryDict_get :: "(string \<times> string) list \<Rightarrow> string \<Rightarrow> string option \<Rightarrow> string option" where
  "QueryDict_get q k d = (case map_of (rev q) k of Some v \<Rightarrow> Some v | None \<Rightarrow> d)"

text \<open>Truth of what \<^verbatim>\<open>get\<close> returned: \<^verbatim>\<open>None\<close> and the empty string are false.\<close>

fun param_truthy :: "string option \<Rightarrow> bool" where
  "param_truthy None = False"
| "param_truthy (Some s) = (s \<noteq> [])"

text \<open>
  A view returns a DRF \<^verbatim>\<open>Response(body, status)\<close> or a redirect to a URL.
\<close>

datatype response = Response json nat | Redirect string

fun status_code :: "response \<Rightarrow> nat" where
  "status_code (Response _ s) = s"
| "status_code (Redirect _) = 302"

fun body :: "response \<Rightarrow> json" where
  "body (Response b _) = b"
| "body (Redirect _) = JNull"

fun field_names :: "json \<Rightarrow> string list" where
  "field_names (JDict kv) = map fst kv"
| "field_names _ = []"

fun field :: "json \<Rightarrow> string \<Rightarrow> json option" where
  "field (JDict kv) k = map_of kv k"
| "field _ k = None"

text \<open>The four Celery tasks of \<^verbatim>\<open>email_operations\<close>, with the keyword arguments of each call.\<close>

datatype task_call =
    Bulk_delete_emails_task int json json json
  | Bulk_recover_emails_task int json json
  | Delete_by_query_task int json json json
  | Recover_by_query_task int json json

text \<open>
  Calls towards the mailbox: constructing \<^verbatim>\<open>GmailOperations\<close> for a user and its two
  methods (with their arguments), and the callback's connection test through
  \<^verbatim>\<open>create_gmail_service\<close> and \<^verbatim>\<open>getProfile\<close>.
\<close>

datatype gmail_call =
    GmailOperations_init int
  | Get_email_metadata json
  | Search_emails json json
  | Create_gmail_service int
  | GetProfile

text \<open>
  A row of \<^verbatim>\<open>GoogleOAuthToken\<close>, with the fields the callback writes; the expiry is
  \<^verbatim>\<open>None\<close> when the token reply has no \<^verbatim>\<open>expires_in\<close>.
\<close>

record oauth_token =
  access_token :: json
  refresh_token :: json
  token_uri :: string
  client_id :: string
  client_secret :: string
  scopes :: "string list"
  expiry :: "json option"

text \<open>
  What the views change outside themselves: the tasks handed to the Celery broker (with the
  id each got), the calls made into the remote-mail component, and the stored credentials,
  one row per user id.
\<close>

record world =
  celery_queue :: "(string \<times> task_call) list"
  gmail_calls :: "gmail_call list"
  oauth_tokens :: "int \<rightharpoonup> oauth_token"


text \<open>
  One snapshot of a Celery task as \<^verbatim>\<open>AsyncResult\<close> shows it: the state string and
  \<^verbatim>\<open>info\<close> (\<^verbatim>\<open>result\<close> is the same attribute), which is the progress meta, the return
  value, or the exception a failed task raised. A poll is modelled on one snapshot.
\<close>

datatype task_info = Value json | Raised exn

record async_result =
  state :: string
  info :: task_info

text \<open>
  The collaborators whose code is outside \<^verbatim>\<open>views.py\<close> are parameters: every theorem
  holds whatever they return or raise.
  \<^item> \<open>delay\<close>: publishing a task call to the broker, given the queue so far; the new task's id.
  \<^item> \<open>AsyncResult\<close>: reading a task's snapshot from the result backend.
  \<^item> \<open>build_search_query\<close>, \<open>GmailOperations\<close>, \<open>get_email_metadata\<close>, \<open>search_emails\<close>:
    the query builder and the remote-mail component of \<^verbatim>\<open>gmail_operations\<close>; both methods
    return a dictionary, which the views index by key.
  \<^item> \<open>User_objects_get_int\<close>: \<^verbatim>\<open>User.objects.get(id=int(state))\<close>.
  \<^item> \<open>exchange_code_for_tokens\<close> (the token endpoint's reply, a dictionary),
    \<open>create_gmail_service\<close> (whether a service came back), \<open>getProfile\<close>: the helpers of
    \<^verbatim>\<open>utils\<close> and the profile request.
  \<^item> \<open>now_plus_seconds\<close>: \<^verbatim>\<open>timezone.now() + timedelta(seconds=x)\<close>.
  \<^item> \<open>py_str\<close>: Python's \<^verbatim>\<open>str\<close> on a value, as an f-string applies it.
  \<^item> the three settings.
\<close>

record env =
  delay :: "task_call \<Rightarrow> (string \<times> task_call) list \<Rightarrow> exn + string"
  AsyncResult :: "string \<Rightarrow> exn + async_result"
  build_search_query :: "json \<Rightarrow> exn + string"
  GmailOperations :: "user \<Rightarrow> exn + unit"
  get_email_metadata :: "user \<Rightarrow> json \<Rightarrow> exn + (string \<times> json) list"
  search_emails :: "user \<Rightarrow> string \<Rightarrow> json \<Rightarrow> exn + (string \<times> json) list"
  User_objects_get_int :: "string \<Rightarrow> exn + user"
  exchange_code_for_tokens :: "string \<Rightarrow> exn + (string \<times> json) list"
  create_gmail_service :: "user \<Rightarrow> exn + bool"
  getProfile :: "user \<Rightarrow> exn + json"
  now_plus_seconds :: "json \<Rightarrow> exn + json"
  py_str :: "json \<Rightarrow> string"
  FRONTEND_URL :: string
  GOOGLE_OAUTH2_CLIENT_ID :: string
  GOOGLE_OAUTH2_CLIENT_SECRET :: string

text \<open>
  \<^verbatim>\<open>task.delay(...)\<close>: when the broker takes the call, the task is on the queue under the
  id returned; when publishing raises, nothing was queued.
\<close>

definition delay_task :: "env \<Rightarrow> task_call \<Rightarrow> world \<Rightarrow> (exn + string) \<times> world" where
  "delay_task env c w =
     (case delay env c (celery_queue w) of
        Inl e \<Rightarrow> (Inl e, w)
      | Inr task_id \<Rightarrow> (Inr task_id, w\<lparr>celery_queue := celery_queue w @ [(task_id, c)]\<rparr>))"

definition gmail_call :: "gmail_call \<Rightarrow> world \<Rightarrow> world" where
  "gmail_call c w = w\<lparr>gmail_calls := gmail_calls w @ [c]\<rparr>"

section \<open>The bulk views\<close>

text \<open>
  Each view body runs inside \<^verbatim>\<open>try: ... except Exception as e:\<close>; the handler answers 500
  with the view's own error text and \<^verbatim>\<open>str(e)\<close>. Logging is left out.
\<close>

definition failed :: "string \<Rightarrow> exn \<Rightarrow> response" where
  "failed msg e = Response (JDict [(''error'', JStr msg), (''details'', JStr (str_exn e))]) 500"

text \<open>\<^verbatim>\<open>str(x)\<close>, which is also what an f-string puts in place of \<^verbatim>\<open>{x}\<close>: a string as it is, anything else through \<^verbatim>\<open>str\<close>.\<close>

definition format_value :: "env \<Rightarrow> json \<Rightarrow> string" where
  "format_value env v = (case v of JStr s \<Rightarrow> s | _ \<Rightarrow> py_str env v)"

definition BulkEmailDeleteView_post :: "env \<Rightarrow> request \<Rightarrow> world \<Rightarrow> response \<times> world" where
  "BulkEmailDeleteView_post env request w =
    (let handler = failed ''Failed to start bulk deletion'' in
     case py_get (data request) ''message_ids'' (JList []) of Inl e \<Rightarrow> (handler e, w) | Inr message_ids \<Rightarrow>
    (case py_get (data request) ''permanent'' (JBool False) of Inl e \<Rightarrow> (handler e, w) | Inr permanent \<Rightarrow>
    (case py_get (data request) ''batch_size'' (JInt 100) of Inl e \<Rightarrow> (handler e, w) | Inr batch_size \<Rightarrow>
    (if \<not> truthy message_ids then
       (Response (JDict [(''error'', JStr ''message_ids required'')]) 400, w)
     else
    (case py_len message_ids of Inl e \<Rightarrow> (handler e, w) | Inr n \<Rightarrow>
    (if n > 10000 then
       (Response (JDict [(''error'', JStr ''Too many emails (max 10,000 per operation)'')]) 400, w)
     else
    (case py_min_int batch_size 500 of Inl e \<Rightarrow> (handler e, w) | Inr clamped \<Rightarrow>
    (case delay_task env
            (Bulk_delete_emails_task (user_id (user request)) message_ids permanent clamped) w of
       (Inl e, w') \<Rightarrow> (handler e, w')
     | (Inr task_id, w') \<Rightarrow>
         (Response (JDict [(''status'', JStr ''started''),
                           (''task_id'', JStr task_id),
                           (''total_emails'', JInt (int n)),
                           (''permanent'', permanent),
                           (''message'', JStr ''Bulk deletion started. Use task_id to check progress.'')])
                   200, w')))))))))"

definition BulkEmailRecoverView_post :: "env \<Rightarrow> request \<Rightarrow> world \<Rightarrow> response \<times> world" where
  "BulkEmailRecoverView_post env request w =
    (let handler = failed ''Failed to start bulk recovery'' in
     case py_get (data request) ''message_ids'' (JList []) of Inl e \<Rightarrow> (handler e, w) | Inr message_ids \<Rightarrow>
    (case py_get (data request) ''batch_size'' (JInt 100) of Inl e \<Rightarrow> (handler e, w) | Inr batch_size \<Rightarrow>
    (if \<not> truthy message_ids then
       (Response (JDict [(''error'', JStr ''message_ids required'')]) 400, w)
     else
    (case py_len message_ids of Inl e \<Rightarrow> (handler e, w) | Inr n \<Rightarrow>
    (if n > 10000 then
       (Response (JDict [(''error'', JStr ''Too many emails (max 10,000 per operation)'')]) 400, w)
     else
    (case py_min_int batch_size 500 of Inl e \<Rightarrow> (handler e, w) | Inr clamped \<Rightarrow>
    (case delay_task env
            (Bulk_recover_emails_task (user_id (user request)) message_ids clamped) w of
       (Inl e, w') \<Rightarrow> (handler e, w')
     | (Inr task_id, w') \<Rightarrow>
         (Response (JDict [(''status'', JStr ''started''),
                           (''task_id'', JStr task_id),
                           (''total_emails'', JInt (int n)),
                           (''message'', JStr ''Bulk recovery started. Use task_id to check progress.'')])
                   200, w'))))))))"

section \<open>Polling a task\<close>

fun exn_class :: "exn \<Rightarrow> string" where
  "exn_class (TypeError _) = ''TypeError''"
| "exn_class (AttributeError _) = ''AttributeError''"
| "exn_class (KeyError _) = ''KeyError''"
| "exn_class (ValueError _) = ''ValueError''"
| "exn_class (DoesNotExist _) = ''DoesNotExist''"
| "exn_class (Exception _) = ''Exception''"

text \<open>\<^verbatim>\<open>result.info.get(key, default)\<close>: an exception object has no \<^verbatim>\<open>get\<close>.\<close>

definition no_get :: "exn \<Rightarrow> exn" where
  "no_get x = AttributeError ([CHR 0x27] @ exn_class x @ [CHR 0x27] @ '' object has no attribute ''
                @ [CHR 0x27] @ ''get'' @ [CHR 0x27])"

fun info_get :: "task_info \<Rightarrow> string \<Rightarrow> json \<Rightarrow> exn + json" where
  "info_get (Value v) k d = py_get v k d"
| "info_get (Raised x) k d = Inl (no_get x)"

fun info_truthy :: "task_info \<Rightarrow> bool" where
  "info_truthy (Value v) = truthy v"
| "info_truthy (Raised x) = True"

fun info_str :: "env \<Rightarrow> task_info \<Rightarrow> string" where
  "info_str env (Value v) = format_value env v"
| "info_str env (Raised x) = str_exn x"

definition TaskStatusView_get :: "env \<Rightarrow> request \<Rightarrow> string \<Rightarrow> response" where
  "TaskStatusView_get env request task_id =
    (let handler = failed ''Failed to get task status'' in
     case AsyncResult env task_id of Inl e \<Rightarrow> handler e | Inr result \<Rightarrow>
    (if state result = ''PENDING'' then
       Response (JDict [(''task_id'', JStr task_id),
                        (''status'', JStr ''PENDING''),
                        (''progress'', JDict [(''current'', JInt 0),
                                              (''total'', JInt 0),
                                              (''message'', JStr ''Task is waiting to start'')])]) 200
     else if state result = ''PROGRESS'' then
       (case info_get (info result) ''current'' (JInt 0) of Inl e \<Rightarrow> handler e | Inr current' \<Rightarrow>
       (case info_get (info result) ''total'' (JInt 0) of Inl e \<Rightarrow> handler e | Inr total' \<Rightarrow>
       (case info_get (info result) ''message'' (JStr ''Processing...'') of Inl e \<Rightarrow> handler e | Inr message' \<Rightarrow>
        Response (JDict [(''task_id'', JStr task_id),
                         (''status'', JStr ''PROGRESS''),
                         (''progress'', JDict [(''current'', current'),
                                               (''total'', total'),
                                               (''message'', message')])]) 200)))
     else if state result = ''SUCCESS'' then
       (case info result of Raised x \<Rightarrow> handler (no_get x) | Value returned \<Rightarrow>
       (case py_get returned ''total'' (JInt 0) of Inl e \<Rightarrow> handler e | Inr current' \<Rightarrow>
       (case py_get returned ''total'' (JInt 0) of Inl e \<Rightarrow> handler e | Inr total' \<Rightarrow>
        Response (JDict [(''task_id'', JStr task_id),
                         (''status'', JStr ''SUCCESS''),
                         (''result'', returned),
                         (''progress'', JDict [(''current'', current'),
                                               (''total'', total'),
                                               (''message'', JStr ''Completed successfully'')])]) 200)))
     else
       Response (JDict [(''task_id'', JStr task_id),
                        (''status'', JStr ''FAILURE''),
                        (''result'', JDict [(''error'',
                            JStr (if info_truthy (info result) then info_str env (info result)
                                  else ''Unknown error''))])]) 200))"

section \<open>Delete and recover by query\<close>

definition DeleteByQueryView_post :: "env \<Rightarrow> request \<Rightarrow> world \<Rightarrow> response \<times> world" where
  "DeleteByQueryView_post env request w =
    (let handler = failed ''Failed to start deletion by query'' in
     case py_get (data request) ''q'' (JStr []) of Inl e \<Rightarrow> (handler e, w) | Inr search_query \<Rightarrow>
    (case py_get (data request) ''max_emails'' (JInt 1000) of Inl e \<Rightarrow> (handler e, w) | Inr max_emails \<Rightarrow>
    (case py_get (data request) ''permanent'' (JBool False) of Inl e \<Rightarrow> (handler e, w) | Inr permanent \<Rightarrow>
    (if \<not> truthy search_query then
       (Response (JDict [(''error'', JStr ''q parameter required'')]) 400, w)
     else
    (case py_gt_int max_emails 10000 of Inl e \<Rightarrow> (handler e, w) | Inr too_many \<Rightarrow>
    (if too_many then
       (Response (JDict [(''error'', JStr ''Maximum 10,000 emails per operation'')]) 400, w)
     else
    (case delay_task env
            (Delete_by_query_task (user_id (user request)) search_query max_emails permanent) w of
       (Inl e, w') \<Rightarrow> (handler e, w')
     | (Inr task_id, w') \<Rightarrow>
         (Response (JDict [(''status'', JStr ''started''),
                           (''task_id'', JStr task_id),
                           (''search_query'', search_query),
                           (''max_emails'', max_emails),
                           (''permanent'', permanent),
                           (''message'', JStr (''Deletion started for up to '' @ format_value env max_emails
                                @ '' emails. Use task_id to check progress.''))])
                   200, w'))))))))"

definition RecoverByQueryView_post :: "env \<Rightarrow> request \<Rightarrow> world \<Rightarrow> response \<times> world" where
  "RecoverByQueryView_post env request w =
    (let handler = failed ''Failed to start recovery by query'' in
     case py_get (data request) ''q'' (JStr []) of Inl e \<Rightarrow> (handler e, w) | Inr search_query \<Rightarrow>
    (case py_get (data request) ''max_emails'' (JInt 1000) of Inl e \<Rightarrow> (handler e, w) | Inr max_emails \<Rightarrow>
    (if \<not> truthy search_query then
       (Response (JDict [(''error'', JStr ''q parameter required'')]) 400, w)
     else
    (case py_gt_int max_emails 10000 of Inl e \<Rightarrow> (handler e, w) | Inr too_many \<Rightarrow>
    (if too_many then
       (Response (JDict [(''error'', JStr ''Maximum 10,000 emails per operation'')]) 400, w)
     else
    (case delay_task env
            (Recover_by_query_task (user_id (user request)) search_query max_emails) w of
       (Inl e, w') \<Rightarrow> (handler e, w')
     | (Inr task_id, w') \<Rightarrow>
         (Response (JDict [(''status'', JStr ''started''),
                           (''task_id'', JStr task_id),
                           (''search_query'', search_query),
                           (''max_emails'', max_emails),
                           (''message'', JStr (''Recovery started for up to '' @ format_value env max_emails
                                @ '' emails. Use task_id to check progress.''))])
                   200, w')))))))"

section \<open>Metadata and advanced search\<close>

definition GmailEmailMetadataView_post :: "env \<Rightarrow> request \<Rightarrow> world \<Rightarrow> response \<times> world" where
  "GmailEmailMetadataView_post env request w =
    (let handler = failed ''Failed to get email metadata'' in
     case py_get (data request) ''message_ids'' (JList []) of Inl e \<Rightarrow> (handler e, w) | Inr message_ids \<Rightarrow>
    (if \<not> truthy message_ids then
       (Response (JDict [(''error'', JStr ''message_ids required'')]) 400, w)
     else
    (case py_len message_ids of Inl e \<Rightarrow> (handler e, w) | Inr n \<Rightarrow>
    (if n > 1000 then
       (Response (JDict [(''error'', JStr ''Too many message IDs (max 1000)'')]) 400, w)
     else
    (let w1 = gmail_call (GmailOperations_init (user_id (user request))) w in
     case GmailOperations env (user request) of Inl e \<Rightarrow> (handler e, w1) | Inr gmail_ops \<Rightarrow>
    (let w2 = gmail_call (Get_email_metadata message_ids) w1 in
     case get_email_metadata env (user request) message_ids of Inl e \<Rightarrow> (handler e, w2) | Inr result \<Rightarrow>
    (if ''error'' \<in> set (map fst result) then (Response (JDict result) 400, w2)
     else
    (case map_of result ''emails'' of
       None \<Rightarrow> (handler (KeyError ([CHR 0x27] @ ''emails'' @ [CHR 0x27])), w2)
     | Some emails \<Rightarrow>
    (case py_len emails of Inl e \<Rightarrow> (handler e, w2) | Inr count \<Rightarrow>
       (Response (JDict [(''status'', JStr ''success''),
                         (''data'', JDict result),
                         (''count'', JInt (int count))]) 200, w2))))))))))"

text \<open>
  The advanced search calls the query builder first, on the whole request body.
\<close>

definition GmailSearchView_post :: "env \<Rightarrow> request \<Rightarrow> world \<Rightarrow> response \<times> world" where
  "GmailSearchView_post env request w =
    (let handler = failed ''Advanced search failed''; filters = data request in
     case build_search_query env filters of Inl e \<Rightarrow> (handler e, w) | Inr query \<Rightarrow>
    (case py_get filters ''max_results'' (JInt 100) of Inl e \<Rightarrow> (handler e, w) | Inr max_results \<Rightarrow>
    (if query = [] then
       (Response (JDict [(''error'', JStr ''No valid search filters provided'')]) 400, w)
     else
    (let w1 = gmail_call (GmailOperations_init (user_id (user request))) w in
     case GmailOperations env (user request) of Inl e \<Rightarrow> (handler e, w1) | Inr gmail_ops \<Rightarrow>
    (let w2 = gmail_call (Search_emails (JStr query) max_results) w1 in
     case search_emails env (user request) query max_results of Inl e \<Rightarrow> (handler e, w2) | Inr result \<Rightarrow>
    (if ''error'' \<in> set (map fst result) then (Response (JDict result) 400, w2)
     else
       (Response (JDict [(''status'', JStr ''success''),
                         (''data'', JDict result),
                         (''filters_used'', filters),
                         (''generated_query'', JStr query)]) 200, w2)))))))"

section \<open>The OAuth callback\<close>

text \<open>
  \<^verbatim>\<open>s.split()\<close> with no argument: the maximal runs of non-whitespace characters. A
  character is a code point below 256; these are the ones \<^verbatim>\<open>str.isspace\<close> accepts there.
\<close>

definition py_isspace :: "char \<Rightarrow> bool" where
  "py_isspace c \<longleftrightarrow>
     c \<in> set [CHR 0x09, CHR 0x0A, CHR 0x0B, CHR 0x0C, CHR 0x0D, CHR 0x1C, CHR 0x1D, CHR 0x1E,
              CHR 0x1F, CHR 0x20, CHR 0x85, CHR 0xA0]"

fun split_from :: "string \<Rightarrow> string \<Rightarrow> string list" where
  "split_from word [] = (if word = [] then [] else [word])"
| "split_from word (c # cs) =
     (if py_isspace c then (if word = [] then split_from [] cs else word # split_from [] cs)
      else split_from (word @ [c]) cs)"

definition py_split :: "string \<Rightarrow> string list" where
  "py_split s = split_from [] s"

text \<open>
  The granted scopes are read from the callback URL:
  \<^verbatim>\<open>granted_scopes_param.split() if granted_scopes_param else []\<close> on
  \<^verbatim>\<open>request.GET.get('scope', '')\<close>.
\<close>

definition granted_scopes_of :: "request \<Rightarrow> string list" where
  "granted_scopes_of request =
     (let granted_scopes_param = QueryDict_get (GET request) ''scope'' (Some []) in
      case granted_scopes_param of
        Some p \<Rightarrow> (if p \<noteq> [] then py_split p else [])
      | None \<Rightarrow> [])"

definition required_scopes :: "string list" where
  "required_scopes = [''https://www.googleapis.com/auth/gmail.modify'']"

text \<open>
  \<^verbatim>\<open>GoogleOAuthToken.objects.update_or_create(user=user, defaults=...)\<close> writes the one
  row of the user. The inner \<^verbatim>\<open>try\<close> blocks have their own handlers; whatever else is
  raised reaches the outer one, which redirects with \<^verbatim>\<open>server_error\<close>.
\<close>

definition oauth_error :: "env \<Rightarrow> string \<Rightarrow> response" where
  "oauth_error env message' = Redirect (FRONTEND_URL env @ ''/dashboard?oauth=error&message='' @ message')"

definition test_gmail_connection :: "env \<Rightarrow> user \<Rightarrow> world \<Rightarrow> json \<times> world" where
  "test_gmail_connection env u w =
    (let w1 = gmail_call (Create_gmail_service (user_id u)) w in
     case create_gmail_service env u of Inl e \<Rightarrow> (JStr ''Unknown'', w1) | Inr gmail_service \<Rightarrow>
    (if \<not> gmail_service then (JStr ''Unknown'', w1)
     else
    (let w2 = gmail_call GetProfile w1 in
     case getProfile env u of Inl e \<Rightarrow> (JStr ''Unknown'', w2) | Inr profile \<Rightarrow>
    (case py_get profile ''emailAddress'' (JStr ''Unknown'') of
       Inl e \<Rightarrow> (JStr ''Unknown'', w2)
     | Inr gmail_address \<Rightarrow> (gmail_address, w2)))))"

definition GoogleOAuthCallbackView_get :: "env \<Rightarrow> request \<Rightarrow> world \<Rightarrow> response \<times> world" where
  "GoogleOAuthCallbackView_get env request w =
    (let code = QueryDict_get (GET request) ''code'' None;
         state' = QueryDict_get (GET request) ''state'' None;
         error = QueryDict_get (GET request) ''error'' None
     in
     if param_truthy error then
       (oauth_error env (case error of Some m \<Rightarrow> m | None \<Rightarrow> ''None''), w)
     else if \<not> param_truthy state' \<or> \<not> param_truthy code then
       (oauth_error env ''missing_parameters'', w)
     else
    (case User_objects_get_int env (case state' of Some s \<Rightarrow> s | None \<Rightarrow> []) of
       Inl (DoesNotExist m) \<Rightarrow> (oauth_error env ''invalid_state'', w)
     | Inl (ValueError m) \<Rightarrow> (oauth_error env ''invalid_state'', w)
     | Inl e \<Rightarrow> (oauth_error env ''server_error'', w)
     | Inr u \<Rightarrow>
    (case exchange_code_for_tokens env (case code of Some c \<Rightarrow> c | None \<Rightarrow> []) of
       Inl e \<Rightarrow> (oauth_error env ''token_exchange_failed'', w)
     | Inr token_response \<Rightarrow>
    (if ''access_token'' \<notin> set (map fst token_response) then
       (oauth_error env ''invalid_token_response'', w)
     else
    (let granted_scopes = granted_scopes_of request;
         missing_scopes = filter (\<lambda>scope. scope \<notin> set granted_scopes) required_scopes
     in
     if missing_scopes \<noteq> [] then
       (oauth_error env ''missing_scopes'', w)
     else
    (case (case map_of token_response ''expires_in'' of
             None \<Rightarrow> Inr None
           | Some seconds \<Rightarrow>
               (case now_plus_seconds env seconds of Inl e \<Rightarrow> Inl e | Inr t \<Rightarrow> Inr (Some t))) of
       Inl e \<Rightarrow> (oauth_error env ''server_error'', w)
     | Inr expiry' \<Rightarrow>
    (let w1 = w\<lparr>oauth_tokens := (oauth_tokens w)(user_id u \<mapsto>
                  \<lparr>access_token = (case map_of token_response ''access_token'' of Some t \<Rightarrow> t | None \<Rightarrow> JNull),
                   refresh_token = (case map_of token_response ''refresh_token'' of Some t \<Rightarrow> t | None \<Rightarrow> JNull),
                   token_uri = ''https://oauth2.googleapis.com/token'',
                   client_id = GOOGLE_OAUTH2_CLIENT_ID env,
                   client_secret = GOOGLE_OAUTH2_CLIENT_SECRET env,
                   scopes = granted_scopes,
                   expiry = expiry'\<rparr>)\<rparr>
     in
     case test_gmail_connection env u w1 of (gmail_address, w2) \<Rightarrow>
       (Redirect (FRONTEND_URL env @ ''/dashboard?oauth=success&email='' @ format_value env gmail_address),
        w2))))))))"

section \<open>Reading a queued call\<close>

text \<open>The \<^verbatim>\<open>batch_size\<close> keyword argument of a queued bulk task.\<close>

fun handed_batch_size :: "task_call \<Rightarrow> json option" where
  "handed_batch_size (Bulk_delete_emails_task _ _ _ b) = Some b"
| "handed_batch_size (Bulk_recover_emails_task _ _ b) = Some b"
| "handed_batch_size _ = None"

section \<open>A sample deployment\<close>

text \<open>
  Concrete collaborators for the closed instances below: a broker that takes every task, a
  result backend with one failed and one finished task, a mailbox component that answers,
  one registered user, and a token endpoint that grants an access token.
\<close>

function show_nat :: "nat \<Rightarrow> string" where
  "show_nat n = (if n < 10 then [''0123456789'' ! n] else show_nat (n div 10) @ [''0123456789'' ! (n mod 10)])"
  by pat_completeness auto
termination
  by (relation "measure id") auto

declare show_nat.simps [simp del]

definition sample_str :: "json \<Rightarrow> string" where
  "sample_str v =
     (case v of
        JNull \<Rightarrow> ''None''
      | JBool b \<Rightarrow> (if b then ''True'' else ''False'')
      | JInt n \<Rightarrow> (if n < 0 then ''-'' @ show_nat (nat (- n)) else show_nat (nat n))
      | JStr s \<Rightarrow> s
      | _ \<Rightarrow> ''...'')"

definition alice :: user where
  "alice = \<lparr>user_id = 7, username = ''alice''\<rparr>"

definition sample_env :: env where
  "sample_env =
     \<lparr>delay = (\<lambda>c q. Inr (''task-'' @ show_nat (length q))),
      AsyncResult = (\<lambda>task_id.
         if task_id = ''task-failed'' then
           Inr \<lparr>state = ''FAILURE'', info = Raised (Exception ''quota exceeded'')\<rparr>
         else if task_id = ''task-done'' then
           Inr \<lparr>state = ''SUCCESS'', info = Value (JDict [(''total'', JInt 3), (''successful'', JInt 3)])\<rparr>
         else Inr \<lparr>state = ''PENDING'', info = Value JNull\<rparr>),
      build_search_query = (\<lambda>filters.
         case field filters ''sender'' of Some (JStr s) \<Rightarrow> Inr (if s = [] then [] else ''from:'' @ s)
         | _ \<Rightarrow> Inr []),
      GmailOperations = (\<lambda>u. Inr ()),
      get_email_metadata = (\<lambda>u ids. Inr [(''emails'', JList [])]),
      search_emails = (\<lambda>u q n. Inr [(''messages'', JList [])]),
      User_objects_get_int = (\<lambda>s.
         if s = ''7'' then Inr alice else Inl (DoesNotExist ''User matching query does not exist.'')),
      exchange_code_for_tokens = (\<lambda>c. Inr [(''access_token'', JStr ''ya29.a0''), (''expires_in'', JInt 3599)]),
      create_gmail_service = (\<lambda>u. Inr True),
      getProfile = (\<lambda>u. Inr (JDict [(''emailAddress'', JStr ''alice@example.com'')])),
      now_plus_seconds = (\<lambda>x. case x of JInt n \<Rightarrow> Inr (JInt (1700000000 + n))
         | _ \<Rightarrow> Inl (TypeError ''unsupported type for timedelta seconds component'')),
      py_str = sample_str,
      FRONTEND_URL = ''http://localhost:3000'',
      GOOGLE_OAUTH2_CLIENT_ID = ''client-id'',
      GOOGLE_OAUTH2_CLIENT_SECRET = ''client-secret''\<rparr>"

definition world0 :: world where
  "world0 = \<lparr>celery_queue = [], gmail_calls = [], oauth_tokens = Map.empty\<rparr>"

definition request_of :: "json \<Rightarrow> request" where
  "request_of d = \<lparr>user = alice, data = d, GET = []\<rparr>"

definition callback_of :: "(string \<times> string) list \<Rightarrow> request" where
  "callback_of q = \<lparr>user = alice, data = JNull, GET = q\<rparr>"

section \<open>Validation before anything is scheduled\<close>

text \<open>
  C1. A bulk delete or bulk recover request whose \<^verbatim>\<open>message_ids\<close> list has more than 10000
  entries is answered at once with the 400 error "Too many emails", and the world is
  returned as it was: nothing is put on the Celery queue, by either view, whatever the
  other fields of the body and whatever the broker would have done.
\<close>

theorem bulk_oversized_rejected:
  assumes "data request = JDict kv"
    and "map_of kv ''message_ids'' = Some (JList ids)"
    and "length ids > 10000"
  shows "BulkEmailDeleteView_post env request w =
           (Response (JDict [(''error'', JStr ''Too many emails (max 10,000 per operation)'')]) 400, w)
       \<and> BulkEmailRecoverView_post env request w =
           (Response (JDict [(''error'', JStr ''Too many emails (max 10,000 per operation)'')]) 400, w)"
proof -
  from assms(3) have "ids \<noteq> []" by auto
  with assms show ?thesis
    by (simp add: BulkEmailDeleteView_post_def BulkEmailRecoverView_post_def)
qed

theorem bulk_oversized_rejected_witness:
  "BulkEmailDeleteView_post sample_env
       (request_of (JDict [(''message_ids'', JList (replicate 10001 (JStr ''m'')))])) world0 =
     (Response (JDict [(''error'', JStr ''Too many emails (max 10,000 per operation)'')]) 400, world0)
   \<and> BulkEmailRecoverView_post sample_env
       (request_of (JDict [(''message_ids'', JList (replicate 10001 (JStr ''m'')))])) world0 =
     (Response (JDict [(''error'', JStr ''Too many emails (max 10,000 per operation)'')]) 400, world0)"
  using bulk_oversized_rejected
    [of "request_of (JDict [(''message_ids'', JList (replicate 10001 (JStr ''m'')))])"
        "[(''message_ids'', JList (replicate 10001 (JStr ''m'')))]"
        "replicate 10001 (JStr ''m'')" sample_env world0]
  by (simp add: request_of_def)

text \<open>
  C9, as the code has it. A bulk delete, bulk recover or metadata request whose body is a
  JSON object without a \<^verbatim>\<open>message_ids\<close> key, or with the empty list there, is answered
  with the 400 error "message_ids required". A request whose body is not a JSON object has
  no \<^verbatim>\<open>get\<close>; it is answered 500 by the view's handler. In both cases the world is
  returned unchanged: no task is queued and the remote-mail component is not called.
\<close>

theorem missing_ids_rejected:
  shows "(data request = JDict kv
           \<and> (map_of kv ''message_ids'' = None \<or> map_of kv ''message_ids'' = Some (JList [])) \<longrightarrow>
           BulkEmailDeleteView_post env request w =
             (Response (JDict [(''error'', JStr ''message_ids required'')]) 400, w)
         \<and> BulkEmailRecoverView_post env request w =
             (Response (JDict [(''error'', JStr ''message_ids required'')]) 400, w)
         \<and> GmailEmailMetadataView_post env request w =
             (Response (JDict [(''error'', JStr ''message_ids required'')]) 400, w))
       \<and> ((\<forall>kv. data request \<noteq> JDict kv) \<longrightarrow>
           status_code (fst (BulkEmailDeleteView_post env request w)) = 500
         \<and> snd (BulkEmailDeleteView_post env request w) = w
         \<and> status_code (fst (BulkEmailRecoverView_post env request w)) = 500
         \<and> snd (BulkEmailRecoverView_post env request w) = w
         \<and> status_code (fst (GmailEmailMetadataView_post env request w)) = 500
         \<and> snd (GmailEmailMetadataView_post env request w) = w)"
proof (intro conjI impI)
  assume "data request = JDict kv
           \<and> (map_of kv ''message_ids'' = None \<or> map_of kv ''message_ids'' = Some (JList []))"
  then show "BulkEmailDeleteView_post env request w =
             (Response (JDict [(''error'', JStr ''message_ids required'')]) 400, w)"
    and "BulkEmailRecoverView_post env request w =
             (Response (JDict [(''error'', JStr ''message_ids required'')]) 400, w)"
    and "GmailEmailMetadataView_post env request w =
             (Response (JDict [(''error'', JStr ''message_ids required'')]) 400, w)"
    by (auto simp add: BulkEmailDeleteView_post_def BulkEmailRecoverView_post_def
          GmailEmailMetadataView_post_def)
next
  assume nd: "\<forall>kv. data request \<noteq> JDict kv"
  then obtain e where e: "\<And>k d. py_get (data request) k d = Inl (e k d)"
    by (cases "data request") auto
  from e show "status_code (fst (BulkEmailDeleteView_post env request w)) = 500"
    and "snd (BulkEmailDeleteView_post env request w) = w"
    and "status_code (fst (BulkEmailRecoverView_post env request w)) = 500"
    and "snd (BulkEmailRecoverView_post env request w) = w"
    and "status_code (fst (GmailEmailMetadataView_post env request w)) = 500"
    and "snd (GmailEmailMetadataView_post env request w) = w"
    by (simp_all add: BulkEmailDeleteView_post_def BulkEmailRecoverView_post_def
          GmailEmailMetadataView_post_def failed_def)
qed

theorem missing_ids_rejected_witness:
  "(BulkEmailDeleteView_post sample_env (request_of (JDict [(''permanent'', JBool True)])) world0 =
           (Response (JDict [(''error'', JStr ''message_ids required'')]) 400, world0)
     \<and> BulkEmailRecoverView_post sample_env (request_of (JDict [(''permanent'', JBool True)])) world0 =
           (Response (JDict [(''error'', JStr ''message_ids required'')]) 400, world0)
     \<and> GmailEmailMetadataView_post sample_env (request_of (JDict [(''permanent'', JBool True)])) world0 =
           (Response (JDict [(''error'', JStr ''message_ids required'')]) 400, world0))
   \<and> (status_code (fst (BulkEmailDeleteView_post sample_env (request_of (JList [])) world0)) = 500
     \<and> snd (BulkEmailDeleteView_post sample_env (request_of (JList [])) world0) = world0
     \<and> status_code (fst (BulkEmailRecoverView_post sample_env (request_of (JList [])) world0)) = 500
     \<and> snd (BulkEmailRecoverView_post sample_env (request_of (JList [])) world0) = world0
     \<and> status_code (fst (GmailEmailMetadataView_post sample_env (request_of (JList [])) world0)) = 500
     \<and> snd (GmailEmailMetadataView_post sample_env (request_of (JList [])) world0) = world0)"
proof -
  let ?kv = "[(''permanent'', JBool True)]"
  have h: "data (request_of (JDict ?kv)) = JDict ?kv
           \<and> (map_of ?kv ''message_ids'' = None \<or> map_of ?kv ''message_ids'' = Some (JList []))"
    by (simp add: request_of_def)
  have n: "\<forall>kv. data (request_of (JList [])) \<noteq> JDict kv"
    by (simp add: request_of_def)
  from missing_ids_rejected [of "request_of (JDict ?kv)" ?kv sample_env world0,
         THEN conjunct1, rule_format, OF h]
       missing_ids_rejected [of "request_of (JList [])" "[]" sample_env world0,
         THEN conjunct2, THEN mp, OF n]
  show ?thesis
    by (rule conjI)
qed

text \<open>
  C9 as written answers every request without \<^verbatim>\<open>message_ids\<close> with the 400 error. A bulk
  delete request whose body is JSON \<^verbatim>\<open>null\<close> has no \<^verbatim>\<open>message_ids\<close>; it is answered 500
  "Failed to start bulk deletion".
\<close>

theorem missing_ids_null_body_counterexample:
  "status_code (fst (BulkEmailDeleteView_post sample_env (request_of JNull) world0)) = 500
   \<and> field (body (fst (BulkEmailDeleteView_post sample_env (request_of JNull) world0))) ''error''
       = Some (JStr ''Failed to start bulk deletion'')
   \<and> fst (BulkEmailDeleteView_post sample_env (request_of JNull) world0) \<noteq>
       Response (JDict [(''error'', JStr ''message_ids required'')]) 400"
  by (simp add: BulkEmailDeleteView_post_def request_of_def failed_def)

section \<open>What an accepted bulk request hands to the worker\<close>

lemma show_nat_0: "show_nat 0 = ''0''"
  by (subst show_nat.simps) simp

lemma py_min_int_JInt: "py_min_int (JInt n) 500 = Inr (JInt (min n 500))"
  by (simp add: py_min_int_def min_def)

lemma delete_accepted:
  assumes "BulkEmailDeleteView_post env request w = (r, w')" and "status_code r = 200"
  shows "\<exists>task_id ids permanent b bs.
           py_get (data request) ''batch_size'' (JInt 100) = Inr b
         \<and> py_min_int b 500 = Inr bs
         \<and> w' = w\<lparr>celery_queue := celery_queue w @
                    [(task_id, Bulk_delete_emails_task (user_id (user request)) ids permanent bs)]\<rparr>"
  using assms
  by (auto simp add: BulkEmailDeleteView_post_def failed_def delay_task_def Let_def
        split: sum.splits if_splits)

lemma recover_accepted:
  assumes "BulkEmailRecoverView_post env request w = (r, w')" and "status_code r = 200"
  shows "\<exists>task_id ids b bs.
           py_get (data request) ''batch_size'' (JInt 100) = Inr b
         \<and> py_min_int b 500 = Inr bs
         \<and> w' = w\<lparr>celery_queue := celery_queue w @
                    [(task_id, Bulk_recover_emails_task (user_id (user request)) ids bs)]\<rparr>"
  using assms
  by (auto simp add: BulkEmailRecoverView_post_def failed_def delay_task_def Let_def
        split: sum.splits if_splits)

lemma delete_runs:
  assumes "data request = JDict kv"
    and "map_of kv ''message_ids'' = Some (JList ids)" and "ids \<noteq> []" and "length ids \<le> 10000"
    and "py_min_int (case map_of kv ''batch_size'' of Some b \<Rightarrow> b | None \<Rightarrow> JInt 100) 500 = Inr bs"
    and "delay env (Bulk_delete_emails_task (user_id (user request)) (JList ids)
            (case map_of kv ''permanent'' of Some p \<Rightarrow> p | None \<Rightarrow> JBool False) bs)
            (celery_queue w) = Inr task_id"
  shows "status_code (fst (BulkEmailDeleteView_post env request w)) = 200
       \<and> celery_queue (snd (BulkEmailDeleteView_post env request w)) = celery_queue w @
            [(task_id, Bulk_delete_emails_task (user_id (user request)) (JList ids)
                (case map_of kv ''permanent'' of Some p \<Rightarrow> p | None \<Rightarrow> JBool False) bs)]"
  using assms
  by (simp add: BulkEmailDeleteView_post_def delay_task_def)

lemma recover_runs:
  assumes "data request = JDict kv"
    and "map_of kv ''message_ids'' = Some (JList ids)" and "ids \<noteq> []" and "length ids \<le> 10000"
    and "py_min_int (case map_of kv ''batch_size'' of Some b \<Rightarrow> b | None \<Rightarrow> JInt 100) 500 = Inr bs"
    and "delay env (Bulk_recover_emails_task (user_id (user request)) (JList ids) bs)
            (celery_queue w) = Inr task_id"
  shows "status_code (fst (BulkEmailRecoverView_post env request w)) = 200
       \<and> celery_queue (snd (BulkEmailRecoverView_post env request w)) = celery_queue w @
            [(task_id, Bulk_recover_emails_task (user_id (user request)) (JList ids) bs)]"
  using assms
  by (simp add: BulkEmailRecoverView_post_def delay_task_def)

lemma accepted_batch:
  assumes "data request = JDict kv"
    and "view = BulkEmailDeleteView_post \<or> view = BulkEmailRecoverView_post"
    and "status_code (fst (view env request w)) = 200"
  shows "\<exists>task_id c bs. celery_queue (snd (view env request w)) = celery_queue w @ [(task_id, c)]
           \<and> handed_batch_size c = Some bs
           \<and> py_min_int (case map_of kv ''batch_size'' of Some b \<Rightarrow> b | None \<Rightarrow> JInt 100) 500 = Inr bs"
proof -
  obtain r w' where rw: "view env request w = (r, w')"
    by (cases "view env request w")
  with assms(3) have ok: "status_code r = 200" by simp
  obtain task_id c b bs where b: "py_get (data request) ''batch_size'' (JInt 100) = Inr b"
    and bs: "py_min_int b 500 = Inr bs"
    and w': "w' = w\<lparr>celery_queue := celery_queue w @ [(task_id, c)]\<rparr>"
    and c: "handed_batch_size c = Some bs"
    using assms(2)
  proof
    assume "view = BulkEmailDeleteView_post"
    with rw ok delete_accepted [of env request w r w'] that show thesis
      by (metis handed_batch_size.simps(1))
  next
    assume "view = BulkEmailRecoverView_post"
    with rw ok recover_accepted [of env request w r w'] that show thesis
      by (metis handed_batch_size.simps(2))
  qed
  from b assms(1) have "b = (case map_of kv ''batch_size'' of Some b \<Rightarrow> b | None \<Rightarrow> JInt 100)"
    by simp
  with bs c w' rw show ?thesis by auto
qed

text \<open>
  C2. A bulk delete or bulk recover request is accepted when the view answers 200. Let the
  requested batch size be the body's \<^verbatim>\<open>batch_size\<close>, 100 when the key is absent.
  \<^item> Each view accepts a request whose \<^verbatim>\<open>message_ids\<close> list has between 1 and 10000
    entries, whose requested batch size is a number and whose task the broker takes; the
    call it has then queued carries \<^verbatim>\<open>min(batch_size, 500)\<close> as its batch size.
  \<^item> Whenever either view answers 200, it has queued exactly one call, whose batch size is
    \<^verbatim>\<open>min(batch_size, 500)\<close> of the requested value.
  \<^item> For an integer \<open>n\<close> that minimum is \<open>min n 500\<close>, so 500 for a value above 500, and an
    absent key gives 100.
\<close>

theorem bulk_batch_size_clamped:
  assumes "data request = JDict kv"
    and "requested = (case map_of kv ''batch_size'' of Some b \<Rightarrow> b | None \<Rightarrow> JInt 100)"
    and "permanent = (case map_of kv ''permanent'' of Some p \<Rightarrow> p | None \<Rightarrow> JBool False)"
  shows "(map_of kv ''message_ids'' = Some (JList ids) \<and> ids \<noteq> [] \<and> length ids \<le> 10000
            \<and> py_min_int requested 500 = Inr bs
            \<and> delay env (Bulk_delete_emails_task (user_id (user request)) (JList ids) permanent bs)
                 (celery_queue w) = Inr task_id \<longrightarrow>
            status_code (fst (BulkEmailDeleteView_post env request w)) = 200
          \<and> celery_queue (snd (BulkEmailDeleteView_post env request w)) = celery_queue w @
               [(task_id, Bulk_delete_emails_task (user_id (user request)) (JList ids) permanent bs)])
       \<and> (map_of kv ''message_ids'' = Some (JList ids) \<and> ids \<noteq> [] \<and> length ids \<le> 10000
            \<and> py_min_int requested 500 = Inr bs
            \<and> delay env (Bulk_recover_emails_task (user_id (user request)) (JList ids) bs)
                 (celery_queue w) = Inr task_id \<longrightarrow>
            status_code (fst (BulkEmailRecoverView_post env request w)) = 200
          \<and> celery_queue (snd (BulkEmailRecoverView_post env request w)) = celery_queue w @
               [(task_id, Bulk_recover_emails_task (user_id (user request)) (JList ids) bs)])
       \<and> (status_code (fst (BulkEmailDeleteView_post env request w)) = 200 \<longrightarrow>
            (\<exists>t c b. celery_queue (snd (BulkEmailDeleteView_post env request w)) = celery_queue w @ [(t, c)]
                 \<and> handed_batch_size c = Some b \<and> py_min_int requested 500 = Inr b))
       \<and> (status_code (fst (BulkEmailRecoverView_post env request w)) = 200 \<longrightarrow>
            (\<exists>t c b. celery_queue (snd (BulkEmailRecoverView_post env request w)) = celery_queue w @ [(t, c)]
                 \<and> handed_batch_size c = Some b \<and> py_min_int requested 500 = Inr b))
       \<and> (\<forall>n. requested = JInt n \<longrightarrow> py_min_int requested 500 = Inr (JInt (min n 500)))
       \<and> (\<forall>n. requested = JInt n \<and> n > 500 \<longrightarrow> py_min_int requested 500 = Inr (JInt 500))
       \<and> (map_of kv ''batch_size'' = None \<longrightarrow> py_min_int requested 500 = Inr (JInt 100))"
proof (intro conjI impI allI)
  assume "map_of kv ''message_ids'' = Some (JList ids) \<and> ids \<noteq> [] \<and> length ids \<le> 10000
            \<and> py_min_int requested 500 = Inr bs
            \<and> delay env (Bulk_delete_emails_task (user_id (user request)) (JList ids) permanent bs)
                 (celery_queue w) = Inr task_id"
  with assms delete_runs [of request kv ids bs env w task_id]
  show "status_code (fst (BulkEmailDeleteView_post env request w)) = 200"
    and "celery_queue (snd (BulkEmailDeleteView_post env request w)) = celery_queue w @
               [(task_id, Bulk_delete_emails_task (user_id (user request)) (JList ids) permanent bs)]"
    by simp_all
next
  assume "map_of kv ''message_ids'' = Some (JList ids) \<and> ids \<noteq> [] \<and> length ids \<le> 10000
            \<and> py_min_int requested 500 = Inr bs
            \<and> delay env (Bulk_recover_emails_task (user_id (user request)) (JList ids) bs)
                 (celery_queue w) = Inr task_id"
  with assms recover_runs [of request kv ids bs env w task_id]
  show "status_code (fst (BulkEmailRecoverView_post env request w)) = 200"
    and "celery_queue (snd (BulkEmailRecoverView_post env request w)) = celery_queue w @
               [(task_id, Bulk_recover_emails_task (user_id (user request)) (JList ids) bs)]"
    by simp_all
next
  assume "status_code (fst (BulkEmailDeleteView_post env request w)) = 200"
  from accepted_batch [OF assms(1) disjI1 [OF refl] this] assms(2)
  show "\<exists>t c b. celery_queue (snd (BulkEmailDeleteView_post env request w)) = celery_queue w @ [(t, c)]
                 \<and> handed_batch_size c = Some b \<and> py_min_int requested 500 = Inr b"
    by simp
next
  assume "status_code (fst (BulkEmailRecoverView_post env request w)) = 200"
  from accepted_batch [OF assms(1) disjI2 [OF refl] this] assms(2)
  show "\<exists>t c b. celery_queue (snd (BulkEmailRecoverView_post env request w)) = celery_queue w @ [(t, c)]
                 \<and> handed_batch_size c = Some b \<and> py_min_int requested 500 = Inr b"
    by simp
next
  fix n assume "requested = JInt n"
  then show "py_min_int requested 500 = Inr (JInt (min n 500))"
    by (simp add: py_min_int_JInt)
next
  fix n assume "requested = JInt n \<and> n > 500"
  then show "py_min_int requested 500 = Inr (JInt 500)"
    by (simp add: py_min_int_JInt)
next
  assume "map_of kv ''batch_size'' = None"
  with assms(2) show "py_min_int requested 500 = Inr (JInt 100)"
    by (simp add: py_min_int_JInt)
qed

theorem bulk_batch_size_clamped_witness:
  "celery_queue (snd (BulkEmailDeleteView_post sample_env
         (request_of (JDict [(''message_ids'', JList [JStr ''m1'']), (''batch_size'', JInt 800)])) world0))
     = celery_queue world0 @
         [(''task-0'', Bulk_delete_emails_task
             (user_id (user (request_of (JDict [(''message_ids'', JList [JStr ''m1'']), (''batch_size'', JInt 800)]))))
             (JList [JStr ''m1'']) (JBool False) (JInt 500))]
   \<and> celery_queue (snd (BulkEmailRecoverView_post sample_env
         (request_of (JDict [(''message_ids'', JList [JStr ''m1'']), (''batch_size'', JInt 800)])) world0))
     = celery_queue world0 @
         [(''task-0'', Bulk_recover_emails_task
             (user_id (user (request_of (JDict [(''message_ids'', JList [JStr ''m1'']), (''batch_size'', JInt 800)]))))
             (JList [JStr ''m1'']) (JInt 500))]"
proof -
  let ?kv = "[(''message_ids'', JList [JStr ''m1'']), (''batch_size'', JInt 800)]"
  let ?rq = "request_of (JDict ?kv)"
  have 1: "data ?rq = JDict ?kv"
    by (simp add: request_of_def)
  have 2: "JInt 800 = (case map_of ?kv ''batch_size'' of Some b \<Rightarrow> b | None \<Rightarrow> JInt 100)"
    by simp
  have 3: "JBool False = (case map_of ?kv ''permanent'' of Some p \<Rightarrow> p | None \<Rightarrow> JBool False)"
    by simp
  note T = bulk_batch_size_clamped [OF 1 2 3, of "[JStr ''m1'']" "JInt 500" sample_env world0 "''task-0''"]
  from T have clamp: "py_min_int (JInt 800) 500 = Inr (JInt 500)"
    by simp
  have d: "map_of ?kv ''message_ids'' = Some (JList [JStr ''m1'']) \<and> [JStr ''m1''] \<noteq> []
      \<and> length [JStr ''m1''] \<le> 10000 \<and> py_min_int (JInt 800) 500 = Inr (JInt 500)
      \<and> delay sample_env (Bulk_delete_emails_task (user_id (user ?rq)) (JList [JStr ''m1''])
            (JBool False) (JInt 500)) (celery_queue world0) = Inr ''task-0''"
    using clamp by (simp add: sample_env_def world0_def show_nat_0)
  have r: "map_of ?kv ''message_ids'' = Some (JList [JStr ''m1'']) \<and> [JStr ''m1''] \<noteq> []
      \<and> length [JStr ''m1''] \<le> 10000 \<and> py_min_int (JInt 800) 500 = Inr (JInt 500)
      \<and> delay sample_env (Bulk_recover_emails_task (user_id (user ?rq)) (JList [JStr ''m1''])
            (JInt 500)) (celery_queue world0) = Inr ''task-0''"
    using clamp by (simp add: sample_env_def world0_def show_nat_0)
  from T [THEN conjunct1, rule_format, OF d, THEN conjunct2]
       T [THEN conjunct2, THEN conjunct1, rule_format, OF r, THEN conjunct2]
  show ?thesis
    by (rule conjI)
qed

section \<open>The responses of the bulk views\<close>

text \<open>
  C3, as the code has it. A bulk delete request whose \<^verbatim>\<open>message_ids\<close> list is non-empty
  and has at most 10000 entries, whose \<^verbatim>\<open>batch_size\<close> is a number, and whose task the
  broker takes, is answered 200 with exactly five fields: \<^verbatim>\<open>status\<close> equal to "started",
  \<^verbatim>\<open>task_id\<close>, \<^verbatim>\<open>total_emails\<close> equal to the length of the list, \<^verbatim>\<open>permanent\<close> as
  requested (false when absent), and a \<^verbatim>\<open>message\<close> text. The bulk recover response has
  the same \<^verbatim>\<open>status\<close>, \<^verbatim>\<open>task_id\<close>, \<^verbatim>\<open>total_emails\<close> and its own \<^verbatim>\<open>message\<close>, and no
  \<^verbatim>\<open>permanent\<close>.
\<close>

theorem bulk_started_response:
  assumes "data request = JDict kv"
    and "map_of kv ''message_ids'' = Some (JList ids)"
    and "ids \<noteq> []"
    and "length ids \<le> 10000"
    and "py_min_int (case map_of kv ''batch_size'' of Some b \<Rightarrow> b | None \<Rightarrow> JInt 100) 500 = Inr bs"
    and "permanent = (case map_of kv ''permanent'' of Some p \<Rightarrow> p | None \<Rightarrow> JBool False)"
  shows "(delay env (Bulk_delete_emails_task (user_id (user request)) (JList ids) permanent bs)
            (celery_queue w) = Inr task_id \<longrightarrow>
          fst (BulkEmailDeleteView_post env request w) =
            Response (JDict [(''status'', JStr ''started''),
                             (''task_id'', JStr task_id),
                             (''total_emails'', JInt (int (length ids))),
                             (''permanent'', permanent),
                             (''message'', JStr ''Bulk deletion started. Use task_id to check progress.'')])
                     200)
       \<and> (delay env (Bulk_recover_emails_task (user_id (user request)) (JList ids) bs)
            (celery_queue w) = Inr task_id \<longrightarrow>
          fst (BulkEmailRecoverView_post env request w) =
            Response (JDict [(''status'', JStr ''started''),
                             (''task_id'', JStr task_id),
                             (''total_emails'', JInt (int (length ids))),
                             (''message'', JStr ''Bulk recovery started. Use task_id to check progress.'')])
                     200)"
  using assms
  by (simp add: BulkEmailDeleteView_post_def BulkEmailRecoverView_post_def delay_task_def)

theorem bulk_started_response_witness:
  "fst (BulkEmailDeleteView_post sample_env
       (request_of (JDict [(''message_ids'', JList [JStr ''m1'', JStr ''m2'']), (''permanent'', JBool True)])) world0) =
            Response (JDict [(''status'', JStr ''started''),
                             (''task_id'', JStr ''task-0''),
                             (''total_emails'', JInt 2),
                             (''permanent'', JBool True),
                             (''message'', JStr ''Bulk deletion started. Use task_id to check progress.'')])
                     200
   \<and> fst (BulkEmailRecoverView_post sample_env
       (request_of (JDict [(''message_ids'', JList [JStr ''m1'', JStr ''m2'']), (''permanent'', JBool True)])) world0) =
            Response (JDict [(''status'', JStr ''started''),
                             (''task_id'', JStr ''task-0''),
                             (''total_emails'', JInt 2),
                             (''message'', JStr ''Bulk recovery started. Use task_id to check progress.'')])
                     200"
  using bulk_started_response
    [of "request_of (JDict [(''message_ids'', JList [JStr ''m1'', JStr ''m2'']), (''permanent'', JBool True)])"
        "[(''message_ids'', JList [JStr ''m1'', JStr ''m2'']), (''permanent'', JBool True)]"
        "[JStr ''m1'', JStr ''m2'']" "JInt 100" "JBool True" sample_env world0 "''task-0''"]
  by (simp add: request_of_def py_min_int_def sample_env_def world0_def show_nat_0)

text \<open>
  C3 as written asks for exactly the four fields \<^verbatim>\<open>task_id\<close>, \<^verbatim>\<open>total_emails\<close>,
  \<^verbatim>\<open>permanent\<close> and \<^verbatim>\<open>status\<close>. The response to an accepted two-id delete request has a
  fifth one, \<^verbatim>\<open>message\<close>.
\<close>

theorem bulk_response_fields_counterexample:
  "status_code (fst (BulkEmailDeleteView_post sample_env
       (request_of (JDict [(''message_ids'', JList [JStr ''m1'', JStr ''m2''])])) world0)) = 200
   \<and> set (field_names (body (fst (BulkEmailDeleteView_post sample_env
       (request_of (JDict [(''message_ids'', JList [JStr ''m1'', JStr ''m2''])])) world0))))
       \<noteq> {''task_id'', ''total_emails'', ''permanent'', ''status''}"
proof -
  let ?r = "fst (BulkEmailDeleteView_post sample_env
       (request_of (JDict [(''message_ids'', JList [JStr ''m1'', JStr ''m2''])])) world0)"
  have names: "field_names (body ?r) = [''status'', ''task_id'', ''total_emails'', ''permanent'', ''message'']"
    and ok: "status_code ?r = 200"
    by (simp_all add: BulkEmailDeleteView_post_def request_of_def py_min_int_def delay_task_def
          sample_env_def)
  have differs: "set (field_names (body ?r)) \<noteq> {''task_id'', ''total_emails'', ''permanent'', ''status''}"
  proof
    assume eq: "set (field_names (body ?r)) = {''task_id'', ''total_emails'', ''permanent'', ''status''}"
    have "''message'' \<in> set (field_names (body ?r))"
      by (simp only: names) simp
    then have "''message'' \<in> {''task_id'', ''total_emails'', ''permanent'', ''status''}"
      by (simp only: eq)
    then show False by simp
  qed
  from ok differs show ?thesis
    by (rule conjI)
qed

section \<open>The task-status contract\<close>

lemma poll_unavailable:
  assumes "AsyncResult env task_id = Inl e"
  shows "TaskStatusView_get env request task_id = failed ''Failed to get task status'' e"
  using assms by (simp add: TaskStatusView_get_def Let_def)

lemma poll_pending:
  assumes "AsyncResult env task_id = Inr result" and "state result = ''PENDING''"
  shows "TaskStatusView_get env request task_id =
     Response (JDict [(''task_id'', JStr task_id),
                      (''status'', JStr ''PENDING''),
                      (''progress'', JDict [(''current'', JInt 0),
                                            (''total'', JInt 0),
                                            (''message'', JStr ''Task is waiting to start'')])]) 200"
  using assms by (simp add: TaskStatusView_get_def Let_def)

lemma poll_progress:
  assumes "AsyncResult env task_id = Inr result" and "state result = ''PROGRESS''"
  shows "(\<exists>e. TaskStatusView_get env request task_id = failed ''Failed to get task status'' e)
       \<or> (\<exists>c t m. TaskStatusView_get env request task_id =
             Response (JDict [(''task_id'', JStr task_id),
                              (''status'', JStr ''PROGRESS''),
                              (''progress'', JDict [(''current'', c), (''total'', t), (''message'', m)])]) 200)"
  using assms by (auto simp add: TaskStatusView_get_def Let_def split: sum.splits)

lemma poll_success:
  assumes "AsyncResult env task_id = Inr result" and "state result = ''SUCCESS''"
  shows "(\<exists>e. TaskStatusView_get env request task_id = failed ''Failed to get task status'' e)
       \<or> (\<exists>returned t. info result = Value returned \<and> py_get returned ''total'' (JInt 0) = Inr t
             \<and> TaskStatusView_get env request task_id =
             Response (JDict [(''task_id'', JStr task_id),
                              (''status'', JStr ''SUCCESS''),
                              (''result'', returned),
                              (''progress'', JDict [(''current'', t), (''total'', t),
                                                    (''message'', JStr ''Completed successfully'')])]) 200)"
  using assms by (auto simp add: TaskStatusView_get_def Let_def split: sum.splits task_info.splits)

lemma poll_other:
  assumes "AsyncResult env task_id = Inr result"
    and "state result \<noteq> ''PENDING''" and "state result \<noteq> ''PROGRESS''" and "state result \<noteq> ''SUCCESS''"
  shows "\<exists>m. TaskStatusView_get env request task_id =
             Response (JDict [(''task_id'', JStr task_id),
                              (''status'', JStr ''FAILURE''),
                              (''result'', JDict [(''error'', JStr m)])]) 200"
  using assms by (simp add: TaskStatusView_get_def Let_def)

lemma failed_status: "status_code (failed m e) = 500"
  by (simp add: failed_def)

text \<open>
  C4, as the code has it. A poll that is answered 200 read a task snapshot, and the response
  follows the snapshot's state. For the states PENDING, PROGRESS and SUCCESS the reported
  \<^verbatim>\<open>status\<close> is the state itself and the response carries a \<^verbatim>\<open>progress\<close> object with
  exactly the fields \<^verbatim>\<open>current\<close>, \<^verbatim>\<open>total\<close> and \<^verbatim>\<open>message\<close>. For every other state the
  reported \<^verbatim>\<open>status\<close> is FAILURE and the response carries no \<^verbatim>\<open>progress\<close> object. The
  \<^verbatim>\<open>result\<close> field is present exactly when the state is neither PENDING nor PROGRESS.
  The poll is answered 200 whenever the snapshot can be read and the state is PENDING, or
  is none of PROGRESS and SUCCESS, or the snapshot's info is a dictionary.
\<close>

theorem task_status_contract:
  shows "(status_code (TaskStatusView_get env request task_id) = 200 \<longrightarrow>
           (\<exists>result. AsyncResult env task_id = Inr result
              \<and> (state result = ''PENDING'' \<or> state result = ''PROGRESS'' \<or> state result = ''SUCCESS'' \<longrightarrow>
                   field (body (TaskStatusView_get env request task_id)) ''status'' = Some (JStr (state result))
                 \<and> (\<exists>p. field (body (TaskStatusView_get env request task_id)) ''progress'' = Some p
                        \<and> field_names p = [''current'', ''total'', ''message'']))
              \<and> (state result \<noteq> ''PENDING'' \<and> state result \<noteq> ''PROGRESS'' \<and> state result \<noteq> ''SUCCESS'' \<longrightarrow>
                   field (body (TaskStatusView_get env request task_id)) ''status'' = Some (JStr ''FAILURE'')
                 \<and> field (body (TaskStatusView_get env request task_id)) ''progress'' = None)
              \<and> (field (body (TaskStatusView_get env request task_id)) ''result'' \<noteq> None
                   \<longleftrightarrow> state result \<noteq> ''PENDING'' \<and> state result \<noteq> ''PROGRESS'')))
       \<and> (\<forall>result. AsyncResult env task_id = Inr result
             \<and> (state result = ''PENDING''
                 \<or> (state result \<noteq> ''PROGRESS'' \<and> state result \<noteq> ''SUCCESS'')
                 \<or> (\<exists>kv. info result = Value (JDict kv))) \<longrightarrow>
             status_code (TaskStatusView_get env request task_id) = 200)"
proof (intro conjI impI allI)
  assume ok: "status_code (TaskStatusView_get env request task_id) = 200"
  show "\<exists>result. AsyncResult env task_id = Inr result
              \<and> (state result = ''PENDING'' \<or> state result = ''PROGRESS'' \<or> state result = ''SUCCESS'' \<longrightarrow>
                   field (body (TaskStatusView_get env request task_id)) ''status'' = Some (JStr (state result))
                 \<and> (\<exists>p. field (body (TaskStatusView_get env request task_id)) ''progress'' = Some p
                        \<and> field_names p = [''current'', ''total'', ''message'']))
              \<and> (state result \<noteq> ''PENDING'' \<and> state result \<noteq> ''PROGRESS'' \<and> state result \<noteq> ''SUCCESS'' \<longrightarrow>
                   field (body (TaskStatusView_get env request task_id)) ''status'' = Some (JStr ''FAILURE'')
                 \<and> field (body (TaskStatusView_get env request task_id)) ''progress'' = None)
              \<and> (field (body (TaskStatusView_get env request task_id)) ''result'' \<noteq> None
                   \<longleftrightarrow> state result \<noteq> ''PENDING'' \<and> state result \<noteq> ''PROGRESS'')"
  proof (cases "AsyncResult env task_id")
    case (Inl e)
    from poll_unavailable [OF this] ok show ?thesis
      by (simp add: failed_status)
  next
    case (Inr result)
    consider (pending) "state result = ''PENDING''"
      | (progress) "state result = ''PROGRESS''"
      | (success) "state result = ''SUCCESS''"
      | (other) "state result \<noteq> ''PENDING''" "state result \<noteq> ''PROGRESS''" "state result \<noteq> ''SUCCESS''"
      by blast
    then show ?thesis
    proof cases
      case pending
      from poll_pending [OF Inr this, of request] pending Inr show ?thesis
        by simp
    next
      case progress
      from poll_progress [OF Inr this, of request] ok
      obtain c t m where "TaskStatusView_get env request task_id =
             Response (JDict [(''task_id'', JStr task_id),
                              (''status'', JStr ''PROGRESS''),
                              (''progress'', JDict [(''current'', c), (''total'', t), (''message'', m)])]) 200"
        by (auto simp add: failed_status)
      with progress Inr show ?thesis
        by simp
    next
      case success
      from poll_success [OF Inr this, of request] ok
      obtain returned t where "TaskStatusView_get env request task_id =
             Response (JDict [(''task_id'', JStr task_id),
                              (''status'', JStr ''SUCCESS''),
                              (''result'', returned),
                              (''progress'', JDict [(''current'', t), (''total'', t),
                                                    (''message'', JStr ''Completed successfully'')])]) 200"
        by (auto simp add: failed_status)
      with success Inr show ?thesis
        by simp
    next
      case other
      from poll_other [OF Inr other, of request]
      obtain m where "TaskStatusView_get env request task_id =
             Response (JDict [(''task_id'', JStr task_id),
                              (''status'', JStr ''FAILURE''),
                              (''result'', JDict [(''error'', JStr m)])]) 200"
        by blast
      with other Inr show ?thesis
        by simp
    qed
  qed
next
  fix result
  assume a: "AsyncResult env task_id = Inr result
             \<and> (state result = ''PENDING''
                 \<or> (state result \<noteq> ''PROGRESS'' \<and> state result \<noteq> ''SUCCESS'')
                 \<or> (\<exists>kv. info result = Value (JDict kv)))"
  then have r: "AsyncResult env task_id = Inr result" by simp
  from a consider (pending) "state result = ''PENDING''"
    | (other) "state result \<noteq> ''PENDING''" "state result \<noteq> ''PROGRESS''" "state result \<noteq> ''SUCCESS''"
    | (dict) kv where "info result = Value (JDict kv)"
    by blast
  then show "status_code (TaskStatusView_get env request task_id) = 200"
  proof cases
    case pending
    from poll_pending [OF r this, of request] show ?thesis by simp
  next
    case other
    from poll_other [OF r other, of request] show ?thesis by auto
  next
    case dict
    with r show ?thesis
      by (simp add: TaskStatusView_get_def Let_def)
  qed
qed

theorem task_status_contract_witness:
  "field (body (TaskStatusView_get sample_env (request_of JNull) ''task-done'')) ''status''
      = Some (JStr ''SUCCESS'')
   \<and> (\<exists>p. field (body (TaskStatusView_get sample_env (request_of JNull) ''task-done'')) ''progress'' = Some p
          \<and> field_names p = [''current'', ''total'', ''message''])
   \<and> field (body (TaskStatusView_get sample_env (request_of JNull) ''task-failed'')) ''status''
      = Some (JStr ''FAILURE'')
   \<and> field (body (TaskStatusView_get sample_env (request_of JNull) ''task-failed'')) ''progress'' = None"
proof -
  let ?done = "\<lparr>state = ''SUCCESS'', info = Value (JDict [(''total'', JInt 3), (''successful'', JInt 3)])\<rparr>"
  let ?failed = "\<lparr>state = ''FAILURE'', info = Raised (Exception ''quota exceeded'')\<rparr>"
  have d: "AsyncResult sample_env ''task-done'' = Inr ?done"
    and f: "AsyncResult sample_env ''task-failed'' = Inr ?failed"
    by (simp_all add: sample_env_def)
  note D = task_status_contract [of sample_env "request_of JNull" "''task-done''"]
  note F = task_status_contract [of sample_env "request_of JNull" "''task-failed''"]
  have d200: "status_code (TaskStatusView_get sample_env (request_of JNull) ''task-done'') = 200"
    using D [THEN conjunct2, rule_format, of ?done] d by simp
  have f200: "status_code (TaskStatusView_get sample_env (request_of JNull) ''task-failed'') = 200"
    using F [THEN conjunct2, rule_format, of ?failed] f by simp
  from D [THEN conjunct1, rule_format, OF d200] d
  have 1: "field (body (TaskStatusView_get sample_env (request_of JNull) ''task-done'')) ''status''
      = Some (JStr ''SUCCESS'')
   \<and> (\<exists>p. field (body (TaskStatusView_get sample_env (request_of JNull) ''task-done'')) ''progress'' = Some p
          \<and> field_names p = [''current'', ''total'', ''message''])"
    by (elim exE conjE) simp
  from F [THEN conjunct1, rule_format, OF f200] f
  have 2: "field (body (TaskStatusView_get sample_env (request_of JNull) ''task-failed'')) ''status''
      = Some (JStr ''FAILURE'')
   \<and> field (body (TaskStatusView_get sample_env (request_of JNull) ''task-failed'')) ''progress'' = None"
    by (elim exE conjE) simp
  from 1 2 show ?thesis by simp
qed

text \<open>
  C4 as written promises a \<^verbatim>\<open>progress\<close> object in every case. The poll of a failed task
  is answered 200 with status FAILURE and without one.
\<close>

theorem task_status_progress_counterexample:
  "status_code (TaskStatusView_get sample_env (request_of JNull) ''task-failed'') = 200
   \<and> field (body (TaskStatusView_get sample_env (request_of JNull) ''task-failed'')) ''status''
        = Some (JStr ''FAILURE'')
   \<and> field (body (TaskStatusView_get sample_env (request_of JNull) ''task-failed'')) ''progress''
        = None"
  by (simp add: TaskStatusView_get_def sample_env_def)

text \<open>
  C10. When the task is in state SUCCESS, every response that reports a \<^verbatim>\<open>progress\<close> object
  has \<^verbatim>\<open>current\<close> equal to \<^verbatim>\<open>total\<close>; when the task's result is a dictionary, the
  object is there and both are the result's \<^verbatim>\<open>total\<close> entry (0 when it has none). When
  the task is in state PENDING both are 0, whatever the snapshot holds besides.
\<close>

theorem task_status_progress_counts:
  assumes "AsyncResult env task_id = Inr result"
  shows "(state result = ''SUCCESS'' \<longrightarrow>
            (\<forall>p. field (body (TaskStatusView_get env request task_id)) ''progress'' = Some p
                  \<longrightarrow> field p ''current'' = field p ''total''))
       \<and> (state result = ''SUCCESS'' \<and> info result = Value (JDict kv) \<longrightarrow>
            (\<exists>p. field (body (TaskStatusView_get env request task_id)) ''progress'' = Some p
                 \<and> field p ''current'' = Some (case map_of kv ''total'' of Some t \<Rightarrow> t | None \<Rightarrow> JInt 0)
                 \<and> field p ''total'' = Some (case map_of kv ''total'' of Some t \<Rightarrow> t | None \<Rightarrow> JInt 0)))
       \<and> (state result = ''PENDING'' \<longrightarrow>
            (\<exists>p. field (body (TaskStatusView_get env request task_id)) ''progress'' = Some p
                 \<and> field p ''current'' = Some (JInt 0)
                 \<and> field p ''total'' = Some (JInt 0)))"
proof (intro conjI impI allI)
  fix p
  assume s: "state result = ''SUCCESS''"
    and p: "field (body (TaskStatusView_get env request task_id)) ''progress'' = Some p"
  from poll_success [OF assms s, of request]
  show "field p ''current'' = field p ''total''"
  proof (elim disjE exE conjE)
    fix e
    assume "TaskStatusView_get env request task_id = failed ''Failed to get task status'' e"
    with p show ?thesis by (simp add: failed_def)
  next
    fix returned t
    assume "TaskStatusView_get env request task_id =
             Response (JDict [(''task_id'', JStr task_id),
                              (''status'', JStr ''SUCCESS''),
                              (''result'', returned),
                              (''progress'', JDict [(''current'', t), (''total'', t),
                                                    (''message'', JStr ''Completed successfully'')])]) 200"
    with p have "p = JDict [(''current'', t), (''total'', t),
                            (''message'', JStr ''Completed successfully'')]"
      by simp
    then show ?thesis by simp
  qed
next
  assume "state result = ''SUCCESS'' \<and> info result = Value (JDict kv)"
  with assms show "\<exists>p. field (body (TaskStatusView_get env request task_id)) ''progress'' = Some p
                 \<and> field p ''current'' = Some (case map_of kv ''total'' of Some t \<Rightarrow> t | None \<Rightarrow> JInt 0)
                 \<and> field p ''total'' = Some (case map_of kv ''total'' of Some t \<Rightarrow> t | None \<Rightarrow> JInt 0)"
    by (simp add: TaskStatusView_get_def Let_def)
next
  assume "state result = ''PENDING''"
  from poll_pending [OF assms this, of request]
  show "\<exists>p. field (body (TaskStatusView_get env request task_id)) ''progress'' = Some p
                 \<and> field p ''current'' = Some (JInt 0)
                 \<and> field p ''total'' = Some (JInt 0)"
    by simp
qed

theorem task_status_progress_counts_witness:
  "\<exists>p. field (body (TaskStatusView_get sample_env (request_of JNull) ''task-done'')) ''progress'' = Some p
                 \<and> field p ''current'' = Some (JInt 3)
                 \<and> field p ''total'' = Some (JInt 3)"
proof -
  have a: "AsyncResult sample_env ''task-done'' =
      Inr \<lparr>state = ''SUCCESS'', info = Value (JDict [(''total'', JInt 3), (''successful'', JInt 3)])\<rparr>"
    by (simp add: sample_env_def)
  from task_status_progress_counts [OF a, where kv = "[(''total'', JInt 3), (''successful'', JInt 3)]"
      and request = "request_of JNull"]
  show ?thesis by simp
qed

section \<open>Queries, metadata and their limits\<close>

text \<open>
  C5. A delete-by-query or recover-by-query request whose \<^verbatim>\<open>q\<close> is absent or the empty
  string is answered with the 400 error "q parameter required", and an advanced search whose
  body the query builder turns into the empty string is answered with the 400 error
  "No valid search filters provided". In all three the world is returned unchanged: no task
  is queued and the remote-mail component is not called.
\<close>

theorem empty_query_rejected:
  assumes "data request = JDict kv"
  shows "(map_of kv ''q'' = None \<or> map_of kv ''q'' = Some (JStr []) \<longrightarrow>
            DeleteByQueryView_post env request w =
              (Response (JDict [(''error'', JStr ''q parameter required'')]) 400, w)
          \<and> RecoverByQueryView_post env request w =
              (Response (JDict [(''error'', JStr ''q parameter required'')]) 400, w))
       \<and> (build_search_query env (data request) = Inr [] \<longrightarrow>
            GmailSearchView_post env request w =
              (Response (JDict [(''error'', JStr ''No valid search filters provided'')]) 400, w))"
  using assms
  by (auto simp add: DeleteByQueryView_post_def RecoverByQueryView_post_def GmailSearchView_post_def
        Let_def)

theorem empty_query_rejected_witness:
  "DeleteByQueryView_post sample_env (request_of (JDict [(''q'', JStr []), (''sender'', JStr [])])) world0 =
      (Response (JDict [(''error'', JStr ''q parameter required'')]) 400, world0)
   \<and> RecoverByQueryView_post sample_env (request_of (JDict [(''q'', JStr []), (''sender'', JStr [])])) world0 =
      (Response (JDict [(''error'', JStr ''q parameter required'')]) 400, world0)
   \<and> GmailSearchView_post sample_env (request_of (JDict [(''q'', JStr []), (''sender'', JStr [])])) world0 =
      (Response (JDict [(''error'', JStr ''No valid search filters provided'')]) 400, world0)"
proof -
  let ?kv = "[(''q'', JStr []), (''sender'', JStr [])]"
  have 1: "data (request_of (JDict ?kv)) = JDict ?kv"
    by (simp add: request_of_def)
  have 2: "map_of ?kv ''q'' = None \<or> map_of ?kv ''q'' = Some (JStr [])"
    by simp
  have 3: "build_search_query sample_env (data (request_of (JDict ?kv))) = Inr []"
    by (simp add: sample_env_def request_of_def)
  from empty_query_rejected [OF 1, of sample_env world0] 2 3 show ?thesis
    by simp
qed

lemma py_gt_int_JInt: "py_gt_int (JInt n) 10000 = Inr (n > 10000)"
  by (simp add: py_gt_int_def)

text \<open>
  C6, as the code has it. Let \<open>n\<close> be the integer \<^verbatim>\<open>max_emails\<close> of a delete-by-query or
  recover-by-query request, 1000 when the key is absent. If \<open>n\<close> exceeds 10000 the request
  is answered 400 with an error and nothing is queued. If \<open>n\<close> is at most 10000, the query
  \<^verbatim>\<open>q\<close> is non-empty and the broker takes the task, the view answers 200, reports
  \<^verbatim>\<open>max_emails\<close> as \<open>n\<close>, and has queued one task carrying that \<^verbatim>\<open>max_emails\<close>.
\<close>

theorem query_max_emails_checked:
  assumes "data request = JDict kv"
    and "map_of kv ''max_emails'' = Some (JInt n) \<or> map_of kv ''max_emails'' = None \<and> n = 1000"
    and "permanent = (case map_of kv ''permanent'' of Some p \<Rightarrow> p | None \<Rightarrow> JBool False)"
  shows "(n > 10000 \<longrightarrow>
            status_code (fst (DeleteByQueryView_post env request w)) = 400
          \<and> field_names (body (fst (DeleteByQueryView_post env request w))) = [''error'']
          \<and> snd (DeleteByQueryView_post env request w) = w
          \<and> status_code (fst (RecoverByQueryView_post env request w)) = 400
          \<and> field_names (body (fst (RecoverByQueryView_post env request w))) = [''error'']
          \<and> snd (RecoverByQueryView_post env request w) = w)
       \<and> (n \<le> 10000 \<and> map_of kv ''q'' = Some q \<and> truthy q
            \<and> delay env (Delete_by_query_task (user_id (user request)) q (JInt n) permanent)
                 (celery_queue w) = Inr task_id \<longrightarrow>
            status_code (fst (DeleteByQueryView_post env request w)) = 200
          \<and> field (body (fst (DeleteByQueryView_post env request w))) ''max_emails'' = Some (JInt n)
          \<and> celery_queue (snd (DeleteByQueryView_post env request w)) = celery_queue w @
               [(task_id, Delete_by_query_task (user_id (user request)) q (JInt n) permanent)])
       \<and> (n \<le> 10000 \<and> map_of kv ''q'' = Some q \<and> truthy q
            \<and> delay env (Recover_by_query_task (user_id (user request)) q (JInt n))
                 (celery_queue w) = Inr task_id \<longrightarrow>
            status_code (fst (RecoverByQueryView_post env request w)) = 200
          \<and> field (body (fst (RecoverByQueryView_post env request w))) ''max_emails'' = Some (JInt n)
          \<and> celery_queue (snd (RecoverByQueryView_post env request w)) = celery_queue w @
               [(task_id, Recover_by_query_task (user_id (user request)) q (JInt n))])"
proof -
  from assms(1,2) have m: "py_get (data request) ''max_emails'' (JInt 1000) = Inr (JInt n)"
    by auto
  from assms(1,3) have p: "py_get (data request) ''permanent'' (JBool False) = Inr permanent"
    by simp
  from assms(1) have q: "py_get (data request) ''q'' (JStr []) =
      Inr (case map_of kv ''q'' of Some v \<Rightarrow> v | None \<Rightarrow> JStr [])"
    by simp
  show ?thesis
    by (simp add: DeleteByQueryView_post_def RecoverByQueryView_post_def Let_def m p q
          py_gt_int_JInt delay_task_def)
qed

theorem query_max_emails_checked_witness:
  "status_code (fst (DeleteByQueryView_post sample_env
       (request_of (JDict [(''q'', JStr ''from:x''), (''max_emails'', JInt 50)])) world0)) = 200
   \<and> field (body (fst (DeleteByQueryView_post sample_env
       (request_of (JDict [(''q'', JStr ''from:x''), (''max_emails'', JInt 50)])) world0))) ''max_emails''
       = Some (JInt 50)
   \<and> celery_queue (snd (DeleteByQueryView_post sample_env
       (request_of (JDict [(''q'', JStr ''from:x''), (''max_emails'', JInt 50)])) world0))
       = celery_queue world0 @
           [(''task-0'', Delete_by_query_task (user_id (user (request_of
               (JDict [(''q'', JStr ''from:x''), (''max_emails'', JInt 50)]))))
              (JStr ''from:x'') (JInt 50) (JBool False))]"
proof -
  let ?kv = "[(''q'', JStr ''from:x''), (''max_emails'', JInt 50)]"
  have 1: "data (request_of (JDict ?kv)) = JDict ?kv"
    by (simp add: request_of_def)
  have 2: "map_of ?kv ''max_emails'' = Some (JInt 50) \<or> map_of ?kv ''max_emails'' = None \<and> (50::int) = 1000"
    by simp
  have 3: "JBool False = (case map_of ?kv ''permanent'' of Some p \<Rightarrow> p | None \<Rightarrow> JBool False)"
    by simp
  have 4: "(50::int) \<le> 10000 \<and> map_of ?kv ''q'' = Some (JStr ''from:x'')
       \<and> truthy (JStr ''from:x'')
       \<and> delay sample_env (Delete_by_query_task (user_id (user (request_of (JDict ?kv))))
              (JStr ''from:x'') (JInt 50) (JBool False)) (celery_queue world0) = Inr ''task-0''"
    by (simp add: sample_env_def world0_def show_nat_0)
  from query_max_emails_checked [OF 1 2 3, of sample_env world0,
      THEN conjunct2, THEN conjunct1, rule_format, OF 4]
  show ?thesis .
qed

text \<open>
  C6 as written lets every request with \<^verbatim>\<open>max_emails\<close> at most 10000 schedule a task. A
  request with \<^verbatim>\<open>max_emails\<close> 5 and no \<^verbatim>\<open>q\<close> is answered 400 and queues nothing.
\<close>

theorem query_without_q_counterexample:
  "DeleteByQueryView_post sample_env (request_of (JDict [(''max_emails'', JInt 5)])) world0 =
     (Response (JDict [(''error'', JStr ''q parameter required'')]) 400, world0)
   \<and> celery_queue (snd (DeleteByQueryView_post sample_env
        (request_of (JDict [(''max_emails'', JInt 5)])) world0)) = []"
  by (simp add: DeleteByQueryView_post_def request_of_def world0_def)

text \<open>
  C7, as the code has it. A metadata request whose \<^verbatim>\<open>message_ids\<close> list has more than 1000
  entries is answered with the 400 error "Too many message IDs" and the world unchanged, so
  the remote-mail component is not reached. A request with at least one and at most 1000
  ids reaches it: the component is constructed for the requesting user and, once
  constructed, asked for the metadata of exactly the ids supplied.
\<close>

theorem metadata_limit:
  assumes "data request = JDict kv"
    and "map_of kv ''message_ids'' = Some (JList ids)"
  shows "(length ids > 1000 \<longrightarrow>
            GmailEmailMetadataView_post env request w =
              (Response (JDict [(''error'', JStr ''Too many message IDs (max 1000)'')]) 400, w))
       \<and> (ids \<noteq> [] \<and> length ids \<le> 1000 \<longrightarrow>
            (\<exists>more. gmail_calls (snd (GmailEmailMetadataView_post env request w)) =
               gmail_calls w @ GmailOperations_init (user_id (user request)) # more))
       \<and> (ids \<noteq> [] \<and> length ids \<le> 1000 \<and> GmailOperations env (user request) = Inr () \<longrightarrow>
            gmail_calls (snd (GmailEmailMetadataView_post env request w)) =
              gmail_calls w @ [GmailOperations_init (user_id (user request)),
                               Get_email_metadata (JList ids)])"
proof (intro conjI impI)
  assume "length ids > 1000"
  then have "ids \<noteq> []" by auto
  with assms \<open>length ids > 1000\<close>
  show "GmailEmailMetadataView_post env request w =
              (Response (JDict [(''error'', JStr ''Too many message IDs (max 1000)'')]) 400, w)"
    by (simp add: GmailEmailMetadataView_post_def)
next
  assume "ids \<noteq> [] \<and> length ids \<le> 1000"
  with assms
  show "\<exists>more. gmail_calls (snd (GmailEmailMetadataView_post env request w)) =
               gmail_calls w @ GmailOperations_init (user_id (user request)) # more"
    by (simp add: GmailEmailMetadataView_post_def Let_def gmail_call_def
          split: sum.splits option.splits)
next
  assume "ids \<noteq> [] \<and> length ids \<le> 1000 \<and> GmailOperations env (user request) = Inr ()"
  with assms
  show "gmail_calls (snd (GmailEmailMetadataView_post env request w)) =
              gmail_calls w @ [GmailOperations_init (user_id (user request)),
                               Get_email_metadata (JList ids)]"
    by (simp add: GmailEmailMetadataView_post_def Let_def gmail_call_def
          split: sum.splits option.splits)
qed

theorem metadata_limit_witness:
  "gmail_calls (snd (GmailEmailMetadataView_post sample_env
       (request_of (JDict [(''message_ids'', JList [JStr ''m1'', JStr ''m2''])])) world0)) =
     gmail_calls world0 @
       [GmailOperations_init (user_id (user (request_of
           (JDict [(''message_ids'', JList [JStr ''m1'', JStr ''m2''])])))),
        Get_email_metadata (JList [JStr ''m1'', JStr ''m2''])]"
proof -
  let ?kv = "[(''message_ids'', JList [JStr ''m1'', JStr ''m2''])]"
  have 1: "data (request_of (JDict ?kv)) = JDict ?kv"
    by (simp add: request_of_def)
  have 2: "map_of ?kv ''message_ids'' = Some (JList [JStr ''m1'', JStr ''m2''])"
    by simp
  have 3: "[JStr ''m1'', JStr ''m2''] \<noteq> [] \<and> length [JStr ''m1'', JStr ''m2''] \<le> 1000
       \<and> GmailOperations sample_env (user (request_of (JDict ?kv))) = Inr ()"
    by (simp add: sample_env_def)
  from metadata_limit [OF 1 2, of sample_env world0, THEN conjunct2, THEN conjunct2, rule_format, OF 3]
  show ?thesis .
qed

text \<open>
  C7 as written passes every request with at most 1000 ids through. The request with the
  empty list has at most 1000 ids; it is answered 400 and the component is not called.
\<close>

theorem metadata_empty_counterexample:
  "length ([] :: json list) \<le> 1000
   \<and> GmailEmailMetadataView_post sample_env (request_of (JDict [(''message_ids'', JList [])])) world0 =
     (Response (JDict [(''error'', JStr ''message_ids required'')]) 400, world0)
   \<and> gmail_calls (snd (GmailEmailMetadataView_post sample_env
        (request_of (JDict [(''message_ids'', JList [])])) world0)) = []"
  by (simp add: GmailEmailMetadataView_post_def request_of_def world0_def)

section \<open>Scopes in the OAuth callback\<close>

lemma missing_scope_filter:
  assumes "''https://www.googleapis.com/auth/gmail.modify'' \<notin> set granted"
  shows "filter (\<lambda>scope. scope \<notin> set granted) required_scopes \<noteq> []"
  using assms by (simp add: required_scopes_def)

lemma split_email: "py_split ''email'' = [''email'']"
  by (simp add: py_split_def py_isspace_def)

lemma split_two_scopes:
  "py_split ''email https://www.googleapis.com/auth/gmail.modify'' =
     [''email'', ''https://www.googleapis.com/auth/gmail.modify'']"
  by (simp add: py_split_def py_isspace_def)

text \<open>
  With the required scope among the granted ones, the sample callback does store the
  credential of user 7: the upsert is part of the model.
\<close>

lemma oauth_granted_scope_stores:
  "oauth_tokens (snd (GoogleOAuthCallbackView_get sample_env
      (callback_of [(''code'', ''4/0Ab''), (''state'', ''7''),
                    (''scope'', ''email https://www.googleapis.com/auth/gmail.modify'')]) world0)) 7 =
     Some \<lparr>access_token = JStr ''ya29.a0'', refresh_token = JNull,
           token_uri = ''https://oauth2.googleapis.com/token'',
           client_id = ''client-id'', client_secret = ''client-secret'',
           scopes = [''email'', ''https://www.googleapis.com/auth/gmail.modify''],
           expiry = Some (JInt 1700003599)\<rparr>"
  by (simp add: GoogleOAuthCallbackView_get_def granted_scopes_of_def callback_of_def QueryDict_get_def
        required_scopes_def split_two_scopes test_gmail_connection_def gmail_call_def
        sample_env_def alice_def world0_def Let_def)

text \<open>
  C8, as the code has it. In every OAuth callback whose granted scopes do not contain
  \<^verbatim>\<open>https://www.googleapis.com/auth/gmail.modify\<close> the world is returned unchanged: no
  credential is stored. When the callback also passes the checks that come before the
  scope check (no \<^verbatim>\<open>error\<close> parameter, non-empty \<^verbatim>\<open>state\<close> and \<^verbatim>\<open>code\<close>, a state that
  names a user, a token exchange that succeeds with an \<^verbatim>\<open>access_token\<close>), it redirects with
  \<^verbatim>\<open>message=missing_scopes\<close>.
\<close>

theorem oauth_missing_scope:
  assumes "''https://www.googleapis.com/auth/gmail.modify'' \<notin> set (granted_scopes_of request)"
  shows "snd (GoogleOAuthCallbackView_get env request w) = w
       \<and> (\<not> param_truthy (QueryDict_get (GET request) ''error'' None)
            \<and> QueryDict_get (GET request) ''state'' None = Some state'
            \<and> state' \<noteq> []
            \<and> QueryDict_get (GET request) ''code'' None = Some code
            \<and> code \<noteq> []
            \<and> User_objects_get_int env state' = Inr u
            \<and> exchange_code_for_tokens env code = Inr token_response
            \<and> ''access_token'' \<in> set (map fst token_response) \<longrightarrow>
          fst (GoogleOAuthCallbackView_get env request w) = oauth_error env ''missing_scopes'')"
proof (intro conjI impI)
  from missing_scope_filter [OF assms]
  show "snd (GoogleOAuthCallbackView_get env request w) = w"
    by (simp add: GoogleOAuthCallbackView_get_def Let_def split: sum.splits exn.splits)
next
  assume "\<not> param_truthy (QueryDict_get (GET request) ''error'' None)
            \<and> QueryDict_get (GET request) ''state'' None = Some state'
            \<and> state' \<noteq> []
            \<and> QueryDict_get (GET request) ''code'' None = Some code
            \<and> code \<noteq> []
            \<and> User_objects_get_int env state' = Inr u
            \<and> exchange_code_for_tokens env code = Inr token_response
            \<and> ''access_token'' \<in> set (map fst token_response)"
  with missing_scope_filter [OF assms]
  show "fst (GoogleOAuthCallbackView_get env request w) = oauth_error env ''missing_scopes''"
    by (simp add: GoogleOAuthCallbackView_get_def Let_def)
qed

theorem oauth_missing_scope_witness:
  "GoogleOAuthCallbackView_get sample_env
      (callback_of [(''code'', ''4/0Ab''), (''state'', ''7''), (''scope'', ''email'')]) world0 =
     (Redirect ''http://localhost:3000/dashboard?oauth=error&message=missing_scopes'', world0)"
proof -
  let ?rq = "callback_of [(''code'', ''4/0Ab''), (''state'', ''7''), (''scope'', ''email'')]"
  have g: "granted_scopes_of ?rq = [''email'']"
    by (simp add: granted_scopes_of_def callback_of_def QueryDict_get_def split_email)
  have 1: "''https://www.googleapis.com/auth/gmail.modify'' \<notin> set (granted_scopes_of ?rq)"
    by (simp only: g) simp
  have 2: "\<not> param_truthy (QueryDict_get (GET ?rq) ''error'' None)
            \<and> QueryDict_get (GET ?rq) ''state'' None = Some ''7''
            \<and> ''7'' \<noteq> []
            \<and> QueryDict_get (GET ?rq) ''code'' None = Some ''4/0Ab''
            \<and> ''4/0Ab'' \<noteq> []
            \<and> User_objects_get_int sample_env ''7'' = Inr alice
            \<and> exchange_code_for_tokens sample_env ''4/0Ab'' =
                 Inr [(''access_token'', JStr ''ya29.a0''), (''expires_in'', JInt 3599)]
            \<and> ''access_token'' \<in> set (map fst [(''access_token'', JStr ''ya29.a0''), (''expires_in'', JInt 3599)])"
    by (simp add: callback_of_def QueryDict_get_def sample_env_def)
  note T = oauth_missing_scope [OF 1, of sample_env world0]
  from T [THEN conjunct1] T [THEN conjunct2, rule_format, OF 2]
  have "snd (GoogleOAuthCallbackView_get sample_env ?rq world0) = world0"
    and "fst (GoogleOAuthCallbackView_get sample_env ?rq world0) = oauth_error sample_env ''missing_scopes''"
    by this+
  moreover have "oauth_error sample_env ''missing_scopes'' =
      Redirect ''http://localhost:3000/dashboard?oauth=error&message=missing_scopes''"
    by (simp add: oauth_error_def sample_env_def)
  ultimately show ?thesis
    by (simp add: prod_eq_iff)
qed

text \<open>
  C8 as written has every such callback redirect with \<^verbatim>\<open>missing_scopes\<close>. A callback that
  grants only \<^verbatim>\<open>email\<close> and whose state names no user redirects with
  \<^verbatim>\<open>invalid_state\<close>.
\<close>

theorem oauth_unknown_user_counterexample:
  "''https://www.googleapis.com/auth/gmail.modify'' \<notin>
      set (granted_scopes_of (callback_of [(''code'', ''4/0Ab''), (''state'', ''999''), (''scope'', ''email'')]))
   \<and> fst (GoogleOAuthCallbackView_get sample_env
           (callback_of [(''code'', ''4/0Ab''), (''state'', ''999''), (''scope'', ''email'')]) world0) =
       Redirect ''http://localhost:3000/dashboard?oauth=error&message=invalid_state''
   \<and> fst (GoogleOAuthCallbackView_get sample_env
           (callback_of [(''code'', ''4/0Ab''), (''state'', ''999''), (''scope'', ''email'')]) world0) \<noteq>
       Redirect ''http://localhost:3000/dashboard?oauth=error&message=missing_scopes''"
  by (simp add: GoogleOAuthCallbackView_get_def granted_scopes_of_def callback_of_def QueryDict_get_def
        oauth_error_def sample_env_def split_email)

end
